theory Spec2Isabelle
  imports Main "HOL-Library.AList"
begin

section \<open>JSON values and the Python operations the services apply to them\<close>

text \<open>
  The services exchange JSON documents: request bodies, \<^verbatim>\<open>input.json\<close>, the answers of
  the LLM endpoint and of the workflow engine, \<^verbatim>\<open>state.json\<close> and \<^verbatim>\<open>output.json\<close>.
  A Python \<^verbatim>\<open>dict\<close> keeps its keys in insertion order, so an object is an association
  list (read with \<open>map_of\<close>, written with \<open>AList.update\<close>, which keep one value per
  key); Python's \<^verbatim>\<open>None\<close> is \<open>JNull\<close>. JSON numbers are integers here, except the
  constant \<^verbatim>\<open>0.0\<close> the code sends as temperature, which is \<open>JZeroFloat\<close>.
\<close>

datatype json =
    JNull
  | JBool bool
  | JInt int
  | JZeroFloat
  | JStr string
  | JArr "json list"
  | JObj "(string \<times> json) list"

text \<open>Python's truth value of an object, as \<^verbatim>\<open>if x:\<close>, \<^verbatim>\<open>not x\<close> and \<^verbatim>\<open>x or y\<close> use it.\<close>

fun truthy :: "json \<Rightarrow> bool" where
  "truthy JNull = False"
| "truthy (JBool b) = b"
| "truthy (JInt n) = (n \<noteq> 0)"
| "truthy JZeroFloat = False"
| "truthy (JStr s) = (s \<noteq> [])"
| "truthy (JArr xs) = (xs \<noteq> [])"
| "truthy (JObj kvs) = (kvs \<noteq> [])"

definition py_or :: "json \<Rightarrow> json \<Rightarrow> json" where
  "py_or x y = (if truthy x then x else y)"

fun is_dict :: "json \<Rightarrow> bool" where
  "is_dict (JObj kvs) = True"
| "is_dict _ = False"

text \<open>Exceptions carry their class and the text \<^verbatim>\<open>str(e)\<close> gives.\<close>

datatype exc_kind =
    RuntimeError
  | ValueError
  | TypeError
  | AttributeError
  | FileNotFoundError
  | JSONDecodeError
  | RequestsJSONDecodeError
  | RequestException
  | HTTPError
  | SubprocessError

datatype exc = Exc (kind: exc_kind) (msg: string)

fun type_name :: "json \<Rightarrow> string" where
  "type_name JNull = ''NoneType''"
| "type_name (JBool b) = ''bool''"
| "type_name (JInt n) = ''int''"
| "type_name JZeroFloat = ''float''"
| "type_name (JStr s) = ''str''"
| "type_name (JArr xs) = ''list''"
| "type_name (JObj kvs) = ''dict''"

definition quoted :: "string \<Rightarrow> string" where
  "quoted s = [CHR 0x27] @ s @ [CHR 0x27]"

definition no_attribute :: "json \<Rightarrow> string \<Rightarrow> exc" where
  "no_attribute v a =
     Exc AttributeError (quoted (type_name v) @ '' object has no attribute '' @ quoted a)"

text \<open>
  \<^verbatim>\<open>d.get(k)\<close> and \<^verbatim>\<open>d.get(k, default)\<close>: only a dict has the method, any other value
  raises AttributeError.
\<close>

fun dict_get_default :: "json \<Rightarrow> string \<Rightarrow> json \<Rightarrow> exc + json" where
  "dict_get_default (JObj kvs) k dflt =
     Inr (case map_of kvs k of None \<Rightarrow> dflt | Some v \<Rightarrow> v)"
| "dict_get_default v k dflt = Inl (no_attribute v ''get'')"

definition dict_get :: "json \<Rightarrow> string \<Rightarrow> exc + json" where
  "dict_get d k = dict_get_default d k JNull"

section \<open>The HTTP front door (mail-assistant/server.py)\<close>

text \<open>
  \<^verbatim>\<open>
  @app.route("/run", methods=["POST"])
  def run_agent():
      data = request.get_json(silent=True) or {}
      agent_id = data.get("agent_id")
      if not agent_id:
          return jsonify(error="agent_id required"), 400
      def _run(): ...
      Thread(target=_run, daemon=True).start()
      return jsonify(status="started", agent_id=agent_id), 202
  \<close>
  \<^verbatim>\<open>get_json(silent=True)\<close> gives \<^verbatim>\<open>None\<close> for a body that is absent or is not JSON, so
  the request is its parsed body, if any. The handler returns the response and the
  identifier it started a background thread for, if any: it never runs the job itself.
  An exception leaving the handler is the framework's 500 answer.
\<close>

record response =
  body :: json
  status_code :: int

definition run_agent :: "json option \<Rightarrow> exc + (response \<times> json option)" where
  "run_agent request_json =
     (let data = py_or (case request_json of None \<Rightarrow> JNull | Some j \<Rightarrow> j) (JObj []) in
      case dict_get data ''agent_id'' of
        Inl e \<Rightarrow> Inl e
      | Inr agent_id \<Rightarrow>
          if \<not> truthy agent_id
          then Inr (\<lparr>body = JObj [(''error'', JStr ''agent_id required'')], status_code = 400\<rparr>, None)
          else Inr (\<lparr>body = JObj [(''status'', JStr ''started''), (''agent_id'', agent_id)],
                      status_code = 202\<rparr>, Some agent_id))"

text \<open>The start-job contract as the specification words it: 202 for a body that holds an
  \<^verbatim>\<open>agent_id\<close>, 400 when the key is missing.\<close>

definition spec_run_agent :: "(string \<times> json) list \<Rightarrow> response" where
  "spec_run_agent kvs =
     (case map_of kvs ''agent_id'' of
        None \<Rightarrow> \<lparr>body = JObj [(''error'', JStr ''agent_id required'')], status_code = 400\<rparr>
      | Some agent_id \<Rightarrow>
          \<lparr>body = JObj [(''status'', JStr ''started''), (''agent_id'', agent_id)], status_code = 202\<rparr>)"

section \<open>The world a job runs in\<close>

text \<open>
  Strings the code formats: decimal integers, Python's \<^verbatim>\<open>str.rstrip()\<close> (trailing
  white space, here the ASCII part of it) and the substring test \<^verbatim>\<open>a in b\<close>.
\<close>

fun str_nat :: "nat \<Rightarrow> string" where
  "str_nat n =
     (if n < 10 then [char_of (48 + n)] else str_nat (n div 10) @ [char_of (48 + n mod 10)])"

definition str_int :: "int \<Rightarrow> string" where
  "str_int i = (if i < 0 then ''-'' @ str_nat (nat (- i)) else str_nat (nat i))"

definition is_space :: "char \<Rightarrow> bool" where
  "is_space c = (of_char c \<in> {9, 10, 11, 12, 13, 28, 29, 30, 31, 32 :: nat})"

definition rstrip :: "string \<Rightarrow> string" where
  "rstrip s = rev (dropWhile is_space (rev s))"

fun contains :: "string \<Rightarrow> string \<Rightarrow> bool" where
  "contains needle [] = (needle = [])"
| "contains needle (c # cs) = (take (length needle) (c # cs) = needle \<or> contains needle cs)"

text \<open>
  What the code reaches outside itself is a parameter of the model: the configuration read
  from environment variables, the clock, the \<^verbatim>\<open>json\<close> library, what Python prints for a
  value that is not a string, the HTTP peers behind \<^verbatim>\<open>requests.post\<close>, and the adapters
  under \<^verbatim>\<open>/app/tools\<close>. \<open>json_loads\<close> gives the decoder's message on the left when the text
  is not JSON.
\<close>

record http_response =
  resp_status :: int
  resp_reason :: string
  resp_url :: string
  resp_text :: string
  resp_content_type :: "string option"
  resp_encoding :: "string option"
  resp_lines :: "string list"

record proc =
  returncode :: int
  stdout :: string
  stderr :: string

record env =
  OLLAMA_HOST :: string
  OLLAMA_MODEL :: string
  FLOWISE_RUN_URL :: string
  PERSISTENT_DIR :: string
  asctime :: "nat \<Rightarrow> string"
  json_loads :: "string \<Rightarrow> string + json"
  json_dumps :: "json \<Rightarrow> string"
  py_repr :: "json \<Rightarrow> string"
  requests_post :: "string \<Rightarrow> json \<Rightarrow> exc + http_response"
  adapter_exists :: "string \<Rightarrow> bool"
  subprocess_run :: "string \<Rightarrow> string \<Rightarrow> exc + proc"

text \<open>
  An f-string prints a string as it is and any other value through its \<^verbatim>\<open>repr\<close>, which
  for a list or a dict is left to the environment.
\<close>

fun py_str :: "env \<Rightarrow> json \<Rightarrow> string" where
  "py_str env (JStr s) = s"
| "py_str env JNull = ''None''"
| "py_str env (JBool b) = (if b then ''True'' else ''False'')"
| "py_str env (JInt n) = str_int n"
| "py_str env JZeroFloat = ''0.0''"
| "py_str env v = py_repr env v"

text \<open>
  Each agent identifier owns a directory under \<^verbatim>\<open>PERSISTENT_DIR/agents\<close>, which may not
  exist. \<^verbatim>\<open>input.json\<close> is kept as text, the two files the runner writes with
  \<^verbatim>\<open>json.dumps\<close> as the document written. The world also keeps the number of clock
  readings made and the record of what was written and posted, in order.
\<close>

record agent_files =
  input_json :: "string option"
  state_json :: "json option"
  log_txt :: string
  output_json :: "json option"

datatype event =
    WroteState string json
  | WroteOutput string json
  | Posted string json

record world =
  agents :: "string \<Rightarrow> agent_files option"
  clock :: nat
  history :: "event list"

text \<open>
  A statement either returns a value or raises, and changes the world either way: what
  was written before an exception stays written.
\<close>

type_synonym 'a io = "world \<Rightarrow> (exc + 'a) \<times> world"

definition io_return :: "'a \<Rightarrow> 'a io" where
  "io_return x w = (Inr x, w)"

definition io_raise :: "exc \<Rightarrow> 'a io" where
  "io_raise e w = (Inl e, w)"

definition lift :: "exc + 'a \<Rightarrow> 'a io" where
  "lift r w = (r, w)"

definition io_bind :: "'a io \<Rightarrow> ('a \<Rightarrow> 'b io) \<Rightarrow> 'b io" where
  "io_bind m f w = (case m w of (Inl e, w') \<Rightarrow> (Inl e, w') | (Inr x, w') \<Rightarrow> f x w')"

definition try_except :: "'a io \<Rightarrow> (exc \<Rightarrow> 'a io) \<Rightarrow> 'a io" where
  "try_except m h w = (case m w of (Inl e, w') \<Rightarrow> h e w' | (Inr x, w') \<Rightarrow> (Inr x, w'))"

text \<open>
  \<^verbatim>\<open>try: x = m; rest(x)  except Exception as e: h(e)\<close> where only \<open>m\<close> is guarded and the
  rest goes on with its value: the shape needed where the guarded block is cut in two.
\<close>

definition try_except_else :: "'a io \<Rightarrow> (exc \<Rightarrow> 'b io) \<Rightarrow> ('a \<Rightarrow> 'b io) \<Rightarrow> 'b io" where
  "try_except_else m h g w = (case m w of (Inl e, w') \<Rightarrow> h e w' | (Inr x, w') \<Rightarrow> g x w')"

definition time_asctime :: "env \<Rightarrow> string io" where
  "time_asctime env w = (Inr (asctime env (clock w)), w\<lparr>clock := Suc (clock w)\<rparr>)"

definition agent_dir :: "env \<Rightarrow> string \<Rightarrow> string" where
  "agent_dir env agent_id = PERSISTENT_DIR env @ ''/agents/'' @ agent_id"

definition no_such_file :: "string \<Rightarrow> exc" where
  "no_such_file path = Exc FileNotFoundError (''[Errno 2] No such file or directory: '' @ quoted path)"

definition empty_dir :: agent_files where
  "empty_dir = \<lparr>input_json = None, state_json = None, log_txt = [], output_json = None\<rparr>"

section \<open>HTTP calls\<close>

text \<open>
  \<^verbatim>\<open>requests.post(url, json=payload)\<close>, \<^verbatim>\<open>resp.raise_for_status()\<close>, \<^verbatim>\<open>resp.ok\<close> and
  \<^verbatim>\<open>resp.json()\<close>.
\<close>

definition http_post :: "env \<Rightarrow> string \<Rightarrow> json \<Rightarrow> http_response io" where
  "http_post env url payload w =
     (requests_post env url payload, w\<lparr>history := history w @ [Posted url payload]\<rparr>)"

definition raise_for_status :: "http_response \<Rightarrow> exc + unit" where
  "raise_for_status resp =
     (if 400 \<le> resp_status resp \<and> resp_status resp < 500
      then Inl (Exc HTTPError (str_int (resp_status resp) @ '' Client Error: '' @ resp_reason resp
                               @ '' for url: '' @ resp_url resp))
      else if 500 \<le> resp_status resp \<and> resp_status resp < 600
      then Inl (Exc HTTPError (str_int (resp_status resp) @ '' Server Error: '' @ resp_reason resp
                               @ '' for url: '' @ resp_url resp))
      else Inr ())"

definition resp_ok :: "http_response \<Rightarrow> bool" where
  "resp_ok resp = (case raise_for_status resp of Inl e \<Rightarrow> False | Inr u \<Rightarrow> True)"

definition resp_json :: "env \<Rightarrow> http_response \<Rightarrow> exc + json" where
  "resp_json env resp =
     (case json_loads env (resp_text resp) of
        Inl m \<Rightarrow> Inl (Exc RequestsJSONDecodeError m)
      | Inr j \<Rightarrow> Inr j)"

definition ollama_url :: "env \<Rightarrow> string" where
  "ollama_url env = OLLAMA_HOST env @ ''/api/generate''"

definition ollama_payload :: "env \<Rightarrow> json \<Rightarrow> json" where
  "ollama_payload env prompt =
     JObj [(''model'', JStr (OLLAMA_MODEL env)), (''prompt'', prompt),
           (''max_tokens'', JInt 512), (''temperature'', JZeroFloat)]"

text \<open>
  mail-assistant/tasks.py:
  \<^verbatim>\<open>
  def call_ollama(prompt, max_tokens=512, temperature=0.0, timeout=120):
      url = f"{OLLAMA_HOST}/api/generate"
      payload = {"model": OLLAMA_MODEL, "prompt": prompt,
                 "max_tokens": max_tokens, "temperature": temperature}
      resp = requests.post(url, json=payload, timeout=timeout)
      resp.raise_for_status()
      return resp.json()
  \<close>
\<close>

definition tasks_call_ollama :: "env \<Rightarrow> json \<Rightarrow> json io" where
  "tasks_call_ollama env prompt =
     io_bind (http_post env (ollama_url env) (ollama_payload env prompt)) (\<lambda>resp.
     io_bind (lift (raise_for_status resp)) (\<lambda>u.
     lift (resp_json env resp)))"

text \<open>
  mail-assistant/app.py reads the answer as a stream:
  \<^verbatim>\<open>
      try:
          with requests.post(url, json=payload, timeout=timeout, stream=True) as resp:
              if not resp.ok:
                  body = resp.text[:4096] if resp.text else "<no body>"
                  raise RuntimeError(f"Ollama HTTP {resp.status_code}: {body}")
              content_type = resp.headers.get("Content-Type", "")
              if "ndjson" in content_type or "application/x-ndjson" in content_type \
                      or resp.encoding is None:
                  parts = []
                  for raw in resp.iter_lines(decode_unicode=True):
                      if not raw:
                          continue
                      try:
                          obj = json.loads(raw)
                          chunk = obj.get("response")
                          if isinstance(chunk, str):
                              parts.append(chunk)
                      except Exception:
                          parts.append(raw)
                  combined = "".join(parts)
                  return {"model": OLLAMA_MODEL, "text": combined}
              else:
                  return resp.json()
      except requests.exceptions.RequestException as e:
          raise RuntimeError(f"Ollama request failed: {e}") from e
  \<close>
  The loop carries \<open>parts\<close>; a line that does not decode, or decodes to something other
  than an object, lands in the \<^verbatim>\<open>except\<close> branch and is appended as it came.
\<close>

fun ndjson_parts :: "env \<Rightarrow> string list \<Rightarrow> string list \<Rightarrow> string list" where
  "ndjson_parts env parts [] = parts"
| "ndjson_parts env parts (raw # rest) =
     (if raw = [] then ndjson_parts env parts rest
      else case json_loads env raw of
        Inl m \<Rightarrow> ndjson_parts env (parts @ [raw]) rest
      | Inr obj \<Rightarrow>
          (case dict_get obj ''response'' of
             Inl e \<Rightarrow> ndjson_parts env (parts @ [raw]) rest
           | Inr (JStr chunk) \<Rightarrow> ndjson_parts env (parts @ [chunk]) rest
           | Inr other \<Rightarrow> ndjson_parts env parts rest))"

definition is_request_exception :: "exc_kind \<Rightarrow> bool" where
  "is_request_exception k = (k = RequestException \<or> k = HTTPError \<or> k = RequestsJSONDecodeError)"

definition app_call_ollama :: "env \<Rightarrow> json \<Rightarrow> json io" where
  "app_call_ollama env prompt =
     try_except
       (io_bind (http_post env (ollama_url env) (ollama_payload env prompt)) (\<lambda>resp.
          if \<not> resp_ok resp
          then io_raise (Exc RuntimeError
                 (''Ollama HTTP '' @ str_int (resp_status resp) @ '': ''
                  @ (if resp_text resp \<noteq> [] then take 4096 (resp_text resp) else ''<no body>'')))
          else
            let content_type = (case resp_content_type resp of None \<Rightarrow> [] | Some c \<Rightarrow> c) in
            if contains ''ndjson'' content_type \<or> contains ''application/x-ndjson'' content_type
               \<or> resp_encoding resp = None
            then io_return (JObj [(''model'', JStr (OLLAMA_MODEL env)),
                                  (''text'', JStr (concat (ndjson_parts env [] (resp_lines resp))))])
            else lift (resp_json env resp)))
       (\<lambda>e. if is_request_exception (kind e)
            then io_raise (Exc RuntimeError (''Ollama request failed: '' @ msg e))
            else io_raise e)"

text \<open>
  Both modules:
  \<^verbatim>\<open>
  def call_flowise(flow_id, input_data, timeout=120):
      if not flow_id:
          raise ValueError("flow_id required for call_flowise")
      payload = {"flow_id": flow_id, "input": input_data}
      resp = requests.post(FLOWISE_RUN_URL, json=payload, timeout=timeout)
      resp.raise_for_status()
      return resp.json()
  \<close>
\<close>

definition call_flowise :: "env \<Rightarrow> json \<Rightarrow> json \<Rightarrow> json io" where
  "call_flowise env flow_id input_data =
     (if \<not> truthy flow_id then io_raise (Exc ValueError ''flow_id required for call_flowise'')
      else
        io_bind (http_post env (FLOWISE_RUN_URL env)
                   (JObj [(''flow_id'', flow_id), (''input'', input_data)])) (\<lambda>resp.
        io_bind (lift (raise_for_status resp)) (\<lambda>u.
        lift (resp_json env resp))))"

section \<open>The job's files\<close>

text \<open>
  The two modules that run a job differ in their helpers. mail-assistant/tasks.py opens the
  files where they should be, which raises FileNotFoundError when the directory is not
  there:
  \<^verbatim>\<open>
  def write_agent_state(agent_dir: Path, data: dict):
      (agent_dir / "state.json").write_text(json.dumps(data, indent=2))

  def append_agent_log(agent_dir: Path, line: str):
      with (agent_dir / "log.txt").open("a") as f:
          f.write(line.rstrip() + "\n")
  \<close>
  mail-assistant/app.py imports its helpers from agent_logging.py, which create the
  directory first:
  \<^verbatim>\<open>
  def ensure_agent_dir(agent_dir: Path):
      agent_dir.mkdir(parents=True, exist_ok=True)
      ...
  def append_agent_log(agent_dir: Path, message: str):
      ensure_agent_dir(agent_dir)
      log_path = agent_dir / "log.txt"
      with log_path.open("a", encoding="utf-8") as f:
          f.write(message + "\n")

  def write_agent_state(agent_dir: Path, data: Dict):
      ensure_agent_dir(agent_dir)
      state_path = agent_dir / "state.json"
      state_path.write_text(json.dumps(data, indent=2), encoding="utf-8")
  \<close>
  The only failure of a write the model knows is the missing directory.
\<close>

datatype impl = TasksPy | AppPy

definition tasks_write_agent_state :: "env \<Rightarrow> string \<Rightarrow> json \<Rightarrow> unit io" where
  "tasks_write_agent_state env agent_id data w =
     (case agents w agent_id of
        None \<Rightarrow> (Inl (no_such_file (agent_dir env agent_id @ ''/state.json'')), w)
      | Some d \<Rightarrow>
          (Inr (), w\<lparr>agents := (agents w)(agent_id \<mapsto> d\<lparr>state_json := Some data\<rparr>),
                     history := history w @ [WroteState agent_id data]\<rparr>))"

definition tasks_append_agent_log :: "env \<Rightarrow> string \<Rightarrow> string \<Rightarrow> unit io" where
  "tasks_append_agent_log env agent_id line w =
     (case agents w agent_id of
        None \<Rightarrow> (Inl (no_such_file (agent_dir env agent_id @ ''/log.txt'')), w)
      | Some d \<Rightarrow>
          (Inr (), w\<lparr>agents := (agents w)(agent_id \<mapsto>
                        d\<lparr>log_txt := log_txt d @ rstrip line @ [CHR 0x0A]\<rparr>)\<rparr>))"

definition ensure_agent_dir :: "string \<Rightarrow> unit io" where
  "ensure_agent_dir agent_id w =
     (case agents w agent_id of
        None \<Rightarrow> (Inr (), w\<lparr>agents := (agents w)(agent_id \<mapsto> empty_dir)\<rparr>)
      | Some d \<Rightarrow> (Inr (), w))"

definition logging_write_agent_state :: "env \<Rightarrow> string \<Rightarrow> json \<Rightarrow> unit io" where
  "logging_write_agent_state env agent_id data =
     io_bind (ensure_agent_dir agent_id) (\<lambda>u. tasks_write_agent_state env agent_id data)"

definition logging_append_agent_log :: "env \<Rightarrow> string \<Rightarrow> string \<Rightarrow> unit io" where
  "logging_append_agent_log env agent_id message =
     io_bind (ensure_agent_dir agent_id) (\<lambda>u w.
       case agents w agent_id of
         None \<Rightarrow> (Inl (no_such_file (agent_dir env agent_id @ ''/log.txt'')), w)
       | Some d \<Rightarrow>
           (Inr (), w\<lparr>agents := (agents w)(agent_id \<mapsto>
                         d\<lparr>log_txt := log_txt d @ message @ [CHR 0x0A]\<rparr>)\<rparr>))"

fun write_agent_state :: "impl \<Rightarrow> env \<Rightarrow> string \<Rightarrow> json \<Rightarrow> unit io" where
  "write_agent_state TasksPy = tasks_write_agent_state"
| "write_agent_state AppPy = logging_write_agent_state"

fun append_agent_log :: "impl \<Rightarrow> env \<Rightarrow> string \<Rightarrow> string \<Rightarrow> unit io" where
  "append_agent_log TasksPy = tasks_append_agent_log"
| "append_agent_log AppPy = logging_append_agent_log"

fun call_ollama :: "impl \<Rightarrow> env \<Rightarrow> json \<Rightarrow> json io" where
  "call_ollama TasksPy = tasks_call_ollama"
| "call_ollama AppPy = app_call_ollama"

text \<open>\<^verbatim>\<open>append_agent_log(agent_dir, f"[{time.asctime()}] ...")\<close>: the clock is read first.\<close>

definition log_event :: "impl \<Rightarrow> env \<Rightarrow> string \<Rightarrow> string \<Rightarrow> unit io" where
  "log_event m env agent_id what =
     io_bind (time_asctime env) (\<lambda>t.
     append_agent_log m env agent_id (''['' @ t @ ''] '' @ what))"

text \<open>
  \<^verbatim>\<open>
  input_path = agent_dir / "input.json"
  if not input_path.exists():
      raise RuntimeError("input.json missing for agent " + agent_id)
  payload = json.loads(input_path.read_text())
  \<close>
\<close>

definition read_input :: "env \<Rightarrow> string \<Rightarrow> json io" where
  "read_input env agent_id w =
     (case (case agents w agent_id of None \<Rightarrow> None | Some d \<Rightarrow> input_json d) of
        None \<Rightarrow> (Inl (Exc RuntimeError (''input.json missing for agent '' @ agent_id)), w)
      | Some txt \<Rightarrow>
          (case json_loads env txt of
             Inl m \<Rightarrow> (Inl (Exc JSONDecodeError m), w)
           | Inr payload \<Rightarrow> (Inr payload, w)))"

text \<open>\<^verbatim>\<open>(agent_dir / "output.json").write_text(json.dumps(out, indent=2))\<close>, in both modules.\<close>

definition write_output :: "env \<Rightarrow> string \<Rightarrow> json \<Rightarrow> unit io" where
  "write_output env agent_id out w =
     (case agents w agent_id of
        None \<Rightarrow> (Inl (no_such_file (agent_dir env agent_id @ ''/output.json'')), w)
      | Some d \<Rightarrow>
          (Inr (), w\<lparr>agents := (agents w)(agent_id \<mapsto> d\<lparr>output_json := Some out\<rparr>),
                     history := history w @ [WroteOutput agent_id out]\<rparr>))"

section \<open>The job runner\<close>

text \<open>
  \<^verbatim>\<open>
  def run_tool_adapter(agent_dir: Path, adapter_name: str, params: dict):
      adapter_path = Path("/app/tools") / adapter_name
      if not adapter_path.exists():
          append_agent_log(agent_dir, f"Adapter not found: {adapter_name}")
          raise FileNotFoundError(f"Adapter not found: {adapter_name}")
      proc = subprocess.run([str(adapter_path)], input=json.dumps(params).encode("utf-8"),
                            stdout=subprocess.PIPE, stderr=subprocess.PIPE, timeout=600)
      stdout = proc.stdout.decode("utf-8", errors="ignore")
      stderr = proc.stderr.decode("utf-8", errors="ignore")
      return {"returncode": proc.returncode, "stdout": stdout, "stderr": stderr}
  \<close>
  The name comes from the payload and need not be a string: joining a path with anything
  else raises TypeError.
\<close>

definition run_tool_adapter :: "impl \<Rightarrow> env \<Rightarrow> string \<Rightarrow> json \<Rightarrow> json \<Rightarrow> json io" where
  "run_tool_adapter m env agent_id adapter_name params =
     (case adapter_name of
        JStr name \<Rightarrow>
          if \<not> adapter_exists env name
          then io_bind (append_agent_log m env agent_id (''Adapter not found: '' @ name)) (\<lambda>u.
               io_raise (Exc FileNotFoundError (''Adapter not found: '' @ name)))
          else io_bind (lift (subprocess_run env name (json_dumps env params))) (\<lambda>p.
               io_return (JObj [(''returncode'', JInt (returncode p)),
                                (''stdout'', JStr (stdout p)), (''stderr'', JStr (stderr p))]))
      | other \<Rightarrow>
          io_raise (Exc TypeError (''unsupported operand type(s) for /: '' @ quoted ''PosixPath''
                                   @ '' and '' @ quoted (type_name other))))"

text \<open>
  The body of \<^verbatim>\<open>run_agent_background\<close> is the same text in tasks.py and in app.py; it is
  cut here into its blocks. The workflow block:
  \<^verbatim>\<open>
  flow_id = payload.get("flow_id")
  if flow_id:
      append_agent_log(agent_dir, f"[{time.asctime()}] Calling Flowise flow {flow_id}")
      try:
          flow_out = call_flowise(flow_id, payload.get("context", {}))
          append_agent_log(agent_dir, f"[{time.asctime()}] Flowise responded")
      except Exception as e:
          append_agent_log(agent_dir, f"[{time.asctime()}] Flowise failed: {e}")
          flow_out = {"error": str(e)}
  else:
      flow_out = None
  \<close>
\<close>

definition flowise_block :: "impl \<Rightarrow> env \<Rightarrow> string \<Rightarrow> json \<Rightarrow> json io" where
  "flowise_block m env agent_id payload =
     io_bind (lift (dict_get payload ''flow_id'')) (\<lambda>flow_id.
     if truthy flow_id
     then
       io_bind (log_event m env agent_id (''Calling Flowise flow '' @ py_str env flow_id)) (\<lambda>u.
       try_except
         (io_bind (lift (dict_get_default payload ''context'' (JObj []))) (\<lambda>context.
          io_bind (call_flowise env flow_id context) (\<lambda>flow_out.
          io_bind (log_event m env agent_id ''Flowise responded'') (\<lambda>u.
          io_return flow_out))))
         (\<lambda>e. io_bind (log_event m env agent_id (''Flowise failed: '' @ msg e)) (\<lambda>u.
              io_return (JObj [(''error'', JStr (msg e))]))))
     else io_return JNull)"

text \<open>
  \<^verbatim>\<open>
  prompt = payload.get("prompt") or payload.get("task") or "No task provided"
  if flow_out and isinstance(flow_out, dict):
      prompt = f"{prompt}\n\nFlowise output context:\n{json.dumps(flow_out)}"
  \<close>
\<close>

definition build_prompt :: "env \<Rightarrow> json \<Rightarrow> json \<Rightarrow> exc + json" where
  "build_prompt env payload flow_out =
     (case dict_get payload ''prompt'' of
        Inl e \<Rightarrow> Inl e
      | Inr p \<Rightarrow>
          (case (if truthy p then Inr p else dict_get payload ''task'') of
             Inl e \<Rightarrow> Inl e
           | Inr t \<Rightarrow>
               let prompt = py_or t (JStr ''No task provided'') in
               if truthy flow_out \<and> is_dict flow_out
               then Inr (JStr (py_str env prompt
                               @ [CHR 0x0A, CHR 0x0A] @ ''Flowise output context:'' @ [CHR 0x0A]
                               @ json_dumps env flow_out))
               else Inr prompt))"

text \<open>
  The adapter block changes \<open>out\<close> in place, so the handler of its \<^verbatim>\<open>try\<close> sees the
  key the body may already have set:
  \<^verbatim>\<open>
  if payload.get("tool"):
      adapter = payload["tool"].get("name")
      params = payload["tool"].get("params", {})
      append_agent_log(agent_dir, f"[{time.asctime()}] Running adapter {adapter}")
      try:
          adapter_result = run_tool_adapter(agent_dir, adapter, params)
          out["adapter_result"] = adapter_result
          append_agent_log(agent_dir,
              f"[{time.asctime()}] Adapter finished rc={adapter_result.get('returncode')}")
      except Exception as e:
          append_agent_log(agent_dir, f"[{time.asctime()}] Adapter failed: {e}")
          out["adapter_error"] = str(e)
  \<close>
\<close>

definition adapter_failed ::
  "impl \<Rightarrow> env \<Rightarrow> string \<Rightarrow> (string \<times> json) list \<Rightarrow> exc \<Rightarrow> (string \<times> json) list io" where
  "adapter_failed m env agent_id out e =
     io_bind (log_event m env agent_id (''Adapter failed: '' @ msg e)) (\<lambda>u.
     io_return (AList.update ''adapter_error'' (JStr (msg e)) out))"

definition adapter_try ::
  "impl \<Rightarrow> env \<Rightarrow> string \<Rightarrow> json \<Rightarrow> json \<Rightarrow> (string \<times> json) list \<Rightarrow> (string \<times> json) list io" where
  "adapter_try m env agent_id adapter params out =
     try_except_else (run_tool_adapter m env agent_id adapter params)
       (adapter_failed m env agent_id out)
       (\<lambda>adapter_result.
          let out' = AList.update ''adapter_result'' adapter_result out in
          try_except_else
            (io_bind (lift (dict_get adapter_result ''returncode'')) (\<lambda>rc.
             log_event m env agent_id (''Adapter finished rc='' @ py_str env rc)))
            (adapter_failed m env agent_id out')
            (\<lambda>u. io_return out'))"

definition adapter_block ::
  "impl \<Rightarrow> env \<Rightarrow> string \<Rightarrow> json \<Rightarrow> (string \<times> json) list \<Rightarrow> (string \<times> json) list io" where
  "adapter_block m env agent_id payload out =
     io_bind (lift (dict_get payload ''tool'')) (\<lambda>tool.
     if truthy tool
     then
       io_bind (lift (dict_get tool ''name'')) (\<lambda>adapter.
       io_bind (lift (dict_get_default tool ''params'' (JObj []))) (\<lambda>params.
       io_bind (log_event m env agent_id (''Running adapter '' @ py_str env adapter)) (\<lambda>u.
       adapter_try m env agent_id adapter params out)))
     else io_return out)"

text \<open>
  The whole of the \<^verbatim>\<open>try\<close> block of \<^verbatim>\<open>run_agent_background\<close>:
  \<^verbatim>\<open>
  append_agent_log(agent_dir, f"[{time.asctime()}] Agent started")
  write_agent_state(agent_dir, {"status": "running", "progress": 0})
  ... input.json, the workflow block, the prompt ...
  append_agent_log(agent_dir, f"[{time.asctime()}] Calling Ollama")
  gen = call_ollama(prompt)
  append_agent_log(agent_dir, f"[{time.asctime()}] Ollama responded")
  out = {"model_response": gen, "flowise": flow_out, "completed_at": time.asctime()}
  ... the adapter block ...
  (agent_dir / "output.json").write_text(json.dumps(out, indent=2))
  write_agent_state(agent_dir, {"status": "completed", "progress": 100})
  append_agent_log(agent_dir, f"[{time.asctime()}] Agent completed")
  \<close>
\<close>

definition running_state :: json where
  "running_state = JObj [(''status'', JStr ''running''), (''progress'', JInt 0)]"

definition completed_state :: json where
  "completed_state = JObj [(''status'', JStr ''completed''), (''progress'', JInt 100)]"

definition failed_state :: "exc \<Rightarrow> json" where
  "failed_state e =
     JObj [(''status'', JStr ''failed''), (''progress'', JInt 0), (''error'', JStr (msg e))]"

definition finish :: "impl \<Rightarrow> env \<Rightarrow> string \<Rightarrow> (string \<times> json) list \<Rightarrow> unit io" where
  "finish m env agent_id out =
     io_bind (write_output env agent_id (JObj out)) (\<lambda>u.
     io_bind (write_agent_state m env agent_id completed_state) (\<lambda>u.
     log_event m env agent_id ''Agent completed''))"

definition after_ollama :: "impl \<Rightarrow> env \<Rightarrow> string \<Rightarrow> json \<Rightarrow> json \<Rightarrow> json \<Rightarrow> unit io" where
  "after_ollama m env agent_id payload flow_out gen =
     io_bind (log_event m env agent_id ''Ollama responded'') (\<lambda>u.
     io_bind (time_asctime env) (\<lambda>completed_at.
     io_bind (adapter_block m env agent_id payload
                [(''model_response'', gen), (''flowise'', flow_out),
                 (''completed_at'', JStr completed_at)]) (\<lambda>out.
     finish m env agent_id out)))"

definition agent_body :: "impl \<Rightarrow> env \<Rightarrow> string \<Rightarrow> unit io" where
  "agent_body m env agent_id =
     io_bind (log_event m env agent_id ''Agent started'') (\<lambda>u.
     io_bind (write_agent_state m env agent_id running_state) (\<lambda>u.
     io_bind (read_input env agent_id) (\<lambda>payload.
     io_bind (flowise_block m env agent_id payload) (\<lambda>flow_out.
     io_bind (lift (build_prompt env payload flow_out)) (\<lambda>prompt.
     io_bind (log_event m env agent_id ''Calling Ollama'') (\<lambda>u.
     io_bind (call_ollama m env prompt) (\<lambda>gen.
     after_ollama m env agent_id payload flow_out gen)))))))"

text \<open>
  The handlers. tasks.py:
  \<^verbatim>\<open>
  except Exception as e:
      write_agent_state(agent_dir, {"status": "failed", "progress": 0, "error": str(e)})
      append_agent_log(agent_dir, f"[{time.asctime()}] Agent failed: {e}")
      raise
  \<close>
  app.py guards the write:
  \<^verbatim>\<open>
  except Exception as e:
      try:
          write_agent_state(agent_dir, {"status": "failed", "progress": 0, "error": str(e)})
      except Exception:
          pass
      append_agent_log(agent_dir, f"[{time.asctime()}] Agent failed: {e}")
      raise
  \<close>
  An exception raised inside a handler leaves the function in place of the one handled.
\<close>

fun agent_failed :: "impl \<Rightarrow> env \<Rightarrow> string \<Rightarrow> exc \<Rightarrow> unit io" where
  "agent_failed TasksPy env agent_id e =
     io_bind (write_agent_state TasksPy env agent_id (failed_state e)) (\<lambda>u.
     io_bind (log_event TasksPy env agent_id (''Agent failed: '' @ msg e)) (\<lambda>u.
     io_raise e))"
| "agent_failed AppPy env agent_id e =
     io_bind (try_except (write_agent_state AppPy env agent_id (failed_state e))
                (\<lambda>e'. io_return ())) (\<lambda>u.
     io_bind (log_event AppPy env agent_id (''Agent failed: '' @ msg e)) (\<lambda>u.
     io_raise e))"

definition run_agent_background :: "impl \<Rightarrow> env \<Rightarrow> string \<Rightarrow> unit io" where
  "run_agent_background m env agent_id =
     try_except (agent_body m env agent_id) (agent_failed m env agent_id)"

section \<open>What a run leaves behind\<close>

text \<open>The files of one agent, read from a world.\<close>

definition dir_ok :: "string \<Rightarrow> world \<Rightarrow> bool" where
  "dir_ok aid w = (agents w aid \<noteq> None)"

definition input_of :: "string \<Rightarrow> world \<Rightarrow> string option" where
  "input_of aid w = (case agents w aid of None \<Rightarrow> None | Some d \<Rightarrow> input_json d)"

definition state_of :: "string \<Rightarrow> world \<Rightarrow> json option" where
  "state_of aid w = (case agents w aid of None \<Rightarrow> None | Some d \<Rightarrow> state_json d)"

definition output_of :: "string \<Rightarrow> world \<Rightarrow> json option" where
  "output_of aid w = (case agents w aid of None \<Rightarrow> None | Some d \<Rightarrow> output_json d)"

text \<open>
  The shape of a \<^verbatim>\<open>state.json\<close>: \<open>status\<close> is one of the three words, \<open>progress\<close> is 0
  or 100, it is 100 exactly for \<open>completed\<close>, and an \<open>error\<close> goes with \<open>failed\<close> only.
  The shape of an \<^verbatim>\<open>output.json\<close>: \<open>adapter_result\<close> and \<open>adapter_error\<close> are not both
  there.
\<close>

definition state_inv :: "json \<Rightarrow> bool" where
  "state_inv j =
     (case j of
        JObj kvs \<Rightarrow>
          (let status = map_of kvs ''status''; progress = map_of kvs ''progress'' in
           (status = Some (JStr ''running'') \<or> status = Some (JStr ''completed'')
              \<or> status = Some (JStr ''failed'')) \<and>
           (progress = Some (JInt 0) \<or> progress = Some (JInt 100)) \<and>
           ((progress = Some (JInt 100)) = (status = Some (JStr ''completed''))) \<and>
           (map_of kvs ''error'' \<noteq> None \<longrightarrow> status = Some (JStr ''failed'')))
      | _ \<Rightarrow> False)"

definition output_inv :: "json \<Rightarrow> bool" where
  "output_inv j =
     (case j of
        JObj kvs \<Rightarrow> map_of kvs ''adapter_result'' = None \<or> map_of kvs ''adapter_error'' = None
      | _ \<Rightarrow> False)"

fun event_ok :: "string \<Rightarrow> event \<Rightarrow> bool" where
  "event_ok aid (WroteState a j) = (a = aid \<and> state_inv j)"
| "event_ok aid (WroteOutput a j) = (a = aid \<and> output_inv j)"
| "event_ok aid (Posted url p) = True"

fun is_output :: "event \<Rightarrow> bool" where
  "is_output (WroteOutput a j) = True"
| "is_output ev = False"

definition adapter_free :: "(string \<times> json) list \<Rightarrow> bool" where
  "adapter_free out = (map_of out ''adapter_result'' = None \<and> map_of out ''adapter_error'' = None)"

text \<open>
  Two relations between the world before and after a statement on the files of agent
  \<open>aid\<close>. \<open>evolves\<close>: other agents are untouched, the directory does not vanish,
  \<^verbatim>\<open>input.json\<close> is as it was, \<^verbatim>\<open>state.json\<close> and \<^verbatim>\<open>output.json\<close> are as they were
  or well shaped, and the record only grows, by well-shaped writes for this agent. \<open>frame\<close>: \<^verbatim>\<open>output.json\<close> is as it was and no write of it was recorded.
  \<open>valid R m Q\<close>: statement \<open>m\<close> takes every world to an \<open>R\<close>-related one, and every
  value it returns satisfies \<open>Q\<close>. \<open>fails_quietly\<close>: when \<open>m\<close> raises, it has kept the
  frame.
\<close>

definition evolves :: "string \<Rightarrow> world \<Rightarrow> world \<Rightarrow> bool" where
  "evolves aid w w' =
     ((\<forall>a. a \<noteq> aid \<longrightarrow> agents w' a = agents w a) \<and>
      (dir_ok aid w \<longrightarrow> dir_ok aid w') \<and>
      input_of aid w' = input_of aid w \<and>
      (state_of aid w' = state_of aid w \<or> (\<exists>j. state_of aid w' = Some j \<and> state_inv j)) \<and>
      (output_of aid w' = output_of aid w \<or> (\<exists>j. output_of aid w' = Some j \<and> output_inv j)) \<and>
      (\<exists>evs. history w' = history w @ evs \<and> list_all (event_ok aid) evs))"

definition frame :: "string \<Rightarrow> world \<Rightarrow> world \<Rightarrow> bool" where
  "frame aid w w' =
     (output_of aid w' = output_of aid w \<and>
      filter is_output (history w') = filter is_output (history w))"

definition quiet :: "string \<Rightarrow> world \<Rightarrow> world \<Rightarrow> bool" where
  "quiet aid w w' = (evolves aid w w' \<and> frame aid w w')"

definition is_preorder :: "(world \<Rightarrow> world \<Rightarrow> bool) \<Rightarrow> bool" where
  "is_preorder R = ((\<forall>w. R w w) \<and> (\<forall>a b c. R a b \<longrightarrow> R b c \<longrightarrow> R a c))"

definition valid :: "(world \<Rightarrow> world \<Rightarrow> bool) \<Rightarrow> 'a io \<Rightarrow> ('a \<Rightarrow> bool) \<Rightarrow> bool" where
  "valid R m Q = (\<forall>w. R w (snd (m w)) \<and> (\<forall>x. fst (m w) = Inr x \<longrightarrow> Q x))"


section \<open>The values a run computes\<close>

text \<open>
  The HTTP calls read nothing of the world, so their outcome is the one they have in any
  world. \<open>lookup\<close> is \<^verbatim>\<open>d.get(k)\<close> on the pairs of an object. \<open>flow_output\<close> is
  \<open>flow_out\<close> after the workflow block, \<open>task_text\<close> and \<open>prompt_sent\<close> are \<open>prompt\<close>
  before and after the workflow output is appended.
\<close>

definition no_world :: world where
  "no_world = \<lparr>agents = (\<lambda>a. None), clock = 0, history = []\<rparr>"

definition ollama_result :: "impl \<Rightarrow> env \<Rightarrow> json \<Rightarrow> exc + json" where
  "ollama_result m env prompt = fst (call_ollama m env prompt no_world)"

definition flowise_result :: "env \<Rightarrow> json \<Rightarrow> json \<Rightarrow> exc + json" where
  "flowise_result env flow_id input_data = fst (call_flowise env flow_id input_data no_world)"

definition lookup :: "(string \<times> json) list \<Rightarrow> string \<Rightarrow> json" where
  "lookup kvs k = (case map_of kvs k of None \<Rightarrow> JNull | Some v \<Rightarrow> v)"

definition flow_output :: "env \<Rightarrow> (string \<times> json) list \<Rightarrow> json" where
  "flow_output env kvs =
     (if truthy (lookup kvs ''flow_id'')
      then (case flowise_result env (lookup kvs ''flow_id'')
                   (case map_of kvs ''context'' of None \<Rightarrow> JObj [] | Some c \<Rightarrow> c) of
              Inl e \<Rightarrow> JObj [(''error'', JStr (msg e))]
            | Inr flow_out \<Rightarrow> flow_out)
      else JNull)"

definition task_text :: "(string \<times> json) list \<Rightarrow> json" where
  "task_text kvs =
     (if truthy (lookup kvs ''prompt'') then lookup kvs ''prompt''
      else if truthy (lookup kvs ''task'') then lookup kvs ''task''
      else JStr ''No task provided'')"

definition prompt_sent :: "env \<Rightarrow> (string \<times> json) list \<Rightarrow> json \<Rightarrow> json" where
  "prompt_sent env kvs flow_out =
     (if truthy flow_out \<and> is_dict flow_out
      then JStr (py_str env (task_text kvs) @ [CHR 0x0A, CHR 0x0A] @ ''Flowise output context:''
                 @ [CHR 0x0A] @ json_dumps env flow_out)
      else task_text kvs)"

section \<open>The specification's wording of two contracts\<close>


text \<open>What one line of the stream adds to the text in app.py's loop, whatever the line is.\<close>

definition line_part :: "env \<Rightarrow> string \<Rightarrow> string list" where
  "line_part env raw =
     (if raw = [] then []
      else case json_loads env raw of
        Inl m \<Rightarrow> [raw]
      | Inr (JObj kvs) \<Rightarrow> (case map_of kvs ''response'' of Some (JStr s) \<Rightarrow> [s] | _ \<Rightarrow> [])
      | Inr other \<Rightarrow> [raw])"


section \<open>A concrete environment\<close>

text \<open>
  An environment and a world to run the model in. \<open>plain_dumps\<close> is \<^verbatim>\<open>json.dumps\<close> and
  \<open>plain_repr\<close> is \<^verbatim>\<open>repr\<close> on documents whose strings hold nothing to escape but quotes,
  backslashes and newlines; \<open>demo_loads\<close> decodes the few texts used. The LLM endpoint
  answers, the workflow engine refuses the connection, no adapter is installed. Agents
  \<open>a1\<close>, \<open>a2\<close>, \<open>a3\<close> have an input, \<open>a4\<close> has an empty directory, \<open>a5\<close> has the
  output of an earlier run and no input, any other agent has no directory.
\<close>

fun join :: "string \<Rightarrow> string list \<Rightarrow> string" where
  "join sep [] = []"
| "join sep [x] = x"
| "join sep (x # y # ys) = x @ sep @ join sep (y # ys)"

definition escape_char :: "char \<Rightarrow> string" where
  "escape_char c =
     (if c = CHR 0x22 then [CHR 0x5C, CHR 0x22]
      else if c = CHR 0x5C then [CHR 0x5C, CHR 0x5C]
      else if c = CHR 0x0A then [CHR 0x5C, CHR ''n'']
      else [c])"

definition dumps_str :: "string \<Rightarrow> string" where
  "dumps_str s = [CHR 0x22] @ concat (map escape_char s) @ [CHR 0x22]"

fun plain_dumps :: "json \<Rightarrow> string" where
  "plain_dumps JNull = ''null''"
| "plain_dumps (JBool b) = (if b then ''true'' else ''false'')"
| "plain_dumps (JInt i) = str_int i"
| "plain_dumps JZeroFloat = ''0.0''"
| "plain_dumps (JStr s) = dumps_str s"
| "plain_dumps (JArr xs) = ''['' @ join '', '' (map plain_dumps xs) @ '']''"
| "plain_dumps (JObj kvs) =
     ''{'' @ join '', '' (map (\<lambda>kv. dumps_str (fst kv) @ '': '' @ plain_dumps (snd kv)) kvs) @ ''}''"

fun plain_repr :: "json \<Rightarrow> string" where
  "plain_repr JNull = ''None''"
| "plain_repr (JBool b) = (if b then ''True'' else ''False'')"
| "plain_repr (JInt i) = str_int i"
| "plain_repr JZeroFloat = ''0.0''"
| "plain_repr (JStr s) = quoted s"
| "plain_repr (JArr xs) = ''['' @ join '', '' (map plain_repr xs) @ '']''"
| "plain_repr (JObj kvs) =
     ''{'' @ join '', '' (map (\<lambda>kv. quoted (fst kv) @ '': '' @ plain_repr (snd kv)) kvs) @ ''}''"

definition demo_loads :: "string \<Rightarrow> string + json" where
  "demo_loads s =
     (case map_of
        [(''{\"prompt\": \"hi\"}'', JObj [(''prompt'', JStr ''hi'')]),
         (''{\"prompt\": \"hi\", \"flow_id\": \"f1\"}'',
            JObj [(''prompt'', JStr ''hi''), (''flow_id'', JStr ''f1'')]),
         (''{\"prompt\": \"hi\", \"tool\": {\"name\": \"nope\"}}'',
            JObj [(''prompt'', JStr ''hi''), (''tool'', JObj [(''name'', JStr ''nope'')])]),
         (''{\"response\": \"ok\"}'', JObj [(''response'', JStr ''ok'')]),
         (''{\"response\":\"Hel\"}'', JObj [(''response'', JStr ''Hel'')]),
         (''{\"response\":\"lo\"}'', JObj [(''response'', JStr ''lo'')]),
         (''null'', JNull)] s of
        None \<Rightarrow> Inl ''Expecting value: line 1 column 1 (char 0)''
      | Some j \<Rightarrow> Inr j)"

definition demo_response :: "string \<Rightarrow> string \<Rightarrow> http_response" where
  "demo_response url txt =
     \<lparr>resp_status = 200, resp_reason = ''OK'', resp_url = url, resp_text = txt,
      resp_content_type = Some ''application/json'', resp_encoding = Some ''utf-8'',
      resp_lines = [txt]\<rparr>"

definition demo_env :: env where
  "demo_env =
     \<lparr>OLLAMA_HOST = ''http://ollama:11434'', OLLAMA_MODEL = ''qwen3'',
      FLOWISE_RUN_URL = ''http://flowise:3000/api/v1/flows/run'',
      PERSISTENT_DIR = ''/app/persistent'',
      asctime = (\<lambda>n. ''Wed Nov  4 12:00:00 2026''),
      json_loads = demo_loads,
      json_dumps = plain_dumps,
      py_repr = plain_repr,
      requests_post = (\<lambda>url payload.
         if url = ''http://ollama:11434/api/generate''
         then Inr (demo_response url ''{\"response\": \"ok\"}'')
         else Inl (Exc RequestException ''Connection refused'')),
      adapter_exists = (\<lambda>name. False),
      subprocess_run = (\<lambda>name stdin. Inl (Exc SubprocessError ''Permission denied''))\<rparr>"

definition demo_dir :: "string \<Rightarrow> agent_files" where
  "demo_dir txt = \<lparr>input_json = Some txt, state_json = None, log_txt = [], output_json = None\<rparr>"

definition demo_world :: world where
  "demo_world =
     \<lparr>agents =
        [''a1'' \<mapsto> demo_dir ''{\"prompt\": \"hi\"}'',
         ''a2'' \<mapsto> demo_dir ''{\"prompt\": \"hi\", \"flow_id\": \"f1\"}'',
         ''a3'' \<mapsto> demo_dir ''{\"prompt\": \"hi\", \"tool\": {\"name\": \"nope\"}}'',
         ''a4'' \<mapsto> empty_dir,
         ''a5'' \<mapsto> \<lparr>input_json = None, state_json = Some completed_state, log_txt = [],
                    output_json = Some (JObj [(''model_response'', JStr ''kept'')])\<rparr>],
      clock = 0, history = []\<rparr>"

text \<open>Two more environments: the LLM endpoint answers the JSON document \<^verbatim>\<open>null\<close>; no
  HTTP peer can be reached.\<close>

definition null_env :: env where
  "null_env = demo_env\<lparr>requests_post := (\<lambda>url payload. Inr (demo_response url ''null''))\<rparr>"

definition down_env :: env where
  "down_env = demo_env\<lparr>requests_post :=
     (\<lambda>url payload. Inl (Exc RequestException ''Connection refused''))\<rparr>"


section \<open>The LangChain wrapper (agent-ui/backend/agent-ui_backend_ollama_llm_Version20.py)\<close>

text \<open>
  \<^verbatim>\<open>OllamaLLM._call\<close> joins the stream with its own loop:
  \<^verbatim>\<open>
  resp.raise_for_status()
  parts: List[str] = []
  for raw in resp.iter_lines(decode_unicode=True):
      if not raw:
          continue
      try:
          obj = json.loads(raw)
          chunk = None
          if isinstance(obj, dict):
              for k in ("response", "token", "content"):
                  if k in obj and isinstance(obj[k], str):
                      chunk = obj[k]
                      break
          if chunk:
              parts.append(chunk)
          else:
              parts.append(raw)
      except Exception:
          parts.append(raw)
  return "".join(parts)
  \<close>
\<close>

fun first_str :: "(string \<times> json) list \<Rightarrow> string list \<Rightarrow> string option" where
  "first_str kvs [] = None"
| "first_str kvs (k # ks) =
     (case map_of kvs k of Some (JStr s) \<Rightarrow> Some s | _ \<Rightarrow> first_str kvs ks)"

fun llm_call_parts :: "env \<Rightarrow> string list \<Rightarrow> string list \<Rightarrow> string list" where
  "llm_call_parts env parts [] = parts"
| "llm_call_parts env parts (raw # rest) =
     (if raw = [] then llm_call_parts env parts rest
      else case json_loads env raw of
        Inl m \<Rightarrow> llm_call_parts env (parts @ [raw]) rest
      | Inr obj \<Rightarrow>
          (case (case obj of JObj kvs \<Rightarrow> first_str kvs [''response'', ''token'', ''content'']
                 | other \<Rightarrow> None) of
             None \<Rightarrow> llm_call_parts env (parts @ [raw]) rest
           | Some chunk \<Rightarrow>
               if chunk \<noteq> [] then llm_call_parts env (parts @ [chunk]) rest
               else llm_call_parts env (parts @ [raw]) rest))"

definition ollama_llm_call :: "env \<Rightarrow> string \<Rightarrow> string io" where
  "ollama_llm_call env prompt =
     try_except
       (io_bind (http_post env
                   (rev (dropWhile (\<lambda>c. c = CHR ''/'') (rev (OLLAMA_HOST env))) @ ''/api/generate'')
                   (ollama_payload env (JStr prompt))) (\<lambda>resp.
        io_bind (lift (raise_for_status resp)) (\<lambda>u.
        io_return (concat (llm_call_parts env [] (resp_lines resp))))))
       (\<lambda>e. if is_request_exception (kind e)
            then io_raise (Exc RuntimeError (''Ollama request failed: '' @ msg e))
            else io_raise e)"

section \<open>Reasoning about statements\<close>

subsection \<open>The relations and the rules of \<open>valid\<close>\<close>

lemma evolves_refl: "evolves aid w w"
  by (simp add: evolves_def)

lemma evolves_trans: "evolves aid a b \<Longrightarrow> evolves aid b c \<Longrightarrow> evolves aid a c"
  unfolding evolves_def by (auto simp: list_all_append)

lemma frame_refl: "frame aid w w"
  by (simp add: frame_def)

lemma frame_trans: "frame aid a b \<Longrightarrow> frame aid b c \<Longrightarrow> frame aid a c"
  by (simp add: frame_def)

lemma is_preorder_evolves: "is_preorder (evolves aid)"
  unfolding is_preorder_def using evolves_refl evolves_trans by blast

lemma is_preorder_frame: "is_preorder (frame aid)"
  unfolding is_preorder_def using frame_refl frame_trans by blast

lemma is_preorder_quiet: "is_preorder (quiet aid)"
  unfolding is_preorder_def quiet_def
  using evolves_refl evolves_trans frame_refl frame_trans by blast

lemma valid_return: "is_preorder R \<Longrightarrow> Q x \<Longrightarrow> valid R (io_return x) Q"
  by (simp add: valid_def io_return_def is_preorder_def)

lemma valid_raise: "is_preorder R \<Longrightarrow> valid R (io_raise e) Q"
  by (simp add: valid_def io_raise_def is_preorder_def)

lemma valid_lift: "is_preorder R \<Longrightarrow> (\<And>x. r = Inr x \<Longrightarrow> Q x) \<Longrightarrow> valid R (lift r) Q"
  by (simp add: valid_def lift_def is_preorder_def)

lemma valid_try_except_else:
  assumes R: "is_preorder R"
    and m: "valid R m P"
    and h: "\<And>e. valid R (h e) Q"
    and g: "\<And>x. P x \<Longrightarrow> valid R (g x) Q"
  shows "valid R (try_except_else m h g) Q"
proof -
  have tr: "\<And>a b c. R a b \<Longrightarrow> R b c \<Longrightarrow> R a c"
    using R by (auto simp: is_preorder_def)
  show ?thesis
    unfolding valid_def
  proof (intro allI)
    fix w
    obtain r w1 where mw: "m w = (r, w1)" by (cases "m w")
    from m have R1: "R w w1" and P: "\<And>x. r = Inr x \<Longrightarrow> P x"
      using mw by (auto simp: valid_def dest: spec [of _ w])
    show "R w (snd (try_except_else m h g w)) \<and>
          (\<forall>x. fst (try_except_else m h g w) = Inr x \<longrightarrow> Q x)"
    proof (cases r)
      case (Inl e)
      with mw have eq: "try_except_else m h g w = h e w1"
        by (simp add: try_except_else_def)
      from h [of e] have "R w1 (snd (h e w1))" and "\<forall>x. fst (h e w1) = Inr x \<longrightarrow> Q x"
        by (auto simp: valid_def)
      with R1 eq show ?thesis by (auto intro: tr)
    next
      case (Inr x)
      with mw have eq: "try_except_else m h g w = g x w1"
        by (simp add: try_except_else_def)
      from g [OF P [OF Inr]] have "R w1 (snd (g x w1))" and "\<forall>y. fst (g x w1) = Inr y \<longrightarrow> Q y"
        by (auto simp: valid_def)
      with R1 eq show ?thesis by (auto intro: tr)
    qed
  qed
qed

lemma io_bind_alt: "io_bind m f = try_except_else m io_raise f"
  by (rule ext) (simp add: io_bind_def try_except_else_def io_raise_def split: prod.splits sum.splits)

lemma try_except_alt: "try_except m h = try_except_else m h io_return"
  by (rule ext) (simp add: try_except_def try_except_else_def io_return_def split: prod.splits sum.splits)

lemma valid_bind:
  "is_preorder R \<Longrightarrow> valid R m P \<Longrightarrow> (\<And>x. P x \<Longrightarrow> valid R (f x) Q) \<Longrightarrow> valid R (io_bind m f) Q"
  unfolding io_bind_alt by (rule valid_try_except_else [where P = P]) (auto intro: valid_raise)

lemma valid_try_except:
  "is_preorder R \<Longrightarrow> valid R m Q \<Longrightarrow> (\<And>e. valid R (h e) Q) \<Longrightarrow> valid R (try_except m h) Q"
  unfolding try_except_alt by (rule valid_try_except_else [where P = Q]) (auto intro: valid_return)

lemma valid_weaken:
  "valid R m P \<Longrightarrow> (\<And>w w'. R w w' \<Longrightarrow> S w w') \<Longrightarrow> (\<And>x. P x \<Longrightarrow> Q x) \<Longrightarrow> valid S m Q"
  by (simp add: valid_def)

lemma valid_if: "(c \<Longrightarrow> valid R a Q) \<Longrightarrow> (\<not> c \<Longrightarrow> valid R b Q) \<Longrightarrow> valid R (if c then a else b) Q"
  by simp

subsection \<open>The statements of the runner keep the relations\<close>

lemmas rel_defs = valid_def quiet_def evolves_def frame_def dir_ok_def input_of_def output_of_def
  state_of_def

lemma quiet_time_asctime: "valid (quiet aid) (time_asctime env) (\<lambda>t. True)"
  by (simp add: rel_defs time_asctime_def)

lemma quiet_http_post: "valid (quiet aid) (http_post env url payload) (\<lambda>r. True)"
  by (simp add: rel_defs http_post_def)

lemma quiet_ensure_agent_dir: "valid (quiet aid) (ensure_agent_dir aid) (\<lambda>u. True)"
  by (auto simp: rel_defs ensure_agent_dir_def empty_dir_def split: option.splits)

lemma quiet_tasks_append_agent_log: "valid (quiet aid) (tasks_append_agent_log env aid line) (\<lambda>u. True)"
  by (auto simp: rel_defs tasks_append_agent_log_def split: option.splits)

lemma quiet_tasks_write_agent_state:
  "state_inv data \<Longrightarrow> valid (quiet aid) (tasks_write_agent_state env aid data) (\<lambda>u. True)"
  by (auto simp: rel_defs tasks_write_agent_state_def split: option.splits)

lemma quiet_logging_append_agent_log:
  "valid (quiet aid) (logging_append_agent_log env aid line) (\<lambda>u. True)"
  unfolding logging_append_agent_log_def
proof (rule valid_bind [OF is_preorder_quiet quiet_ensure_agent_dir])
  show "valid (quiet aid) (\<lambda>w. case agents w aid of
           None \<Rightarrow> (Inl (no_such_file (agent_dir env aid @ ''/log.txt'')), w)
         | Some d \<Rightarrow> (Inr (), w\<lparr>agents := (agents w)(aid \<mapsto> d\<lparr>log_txt := log_txt d @ line @ [CHR 0x0A]\<rparr>)\<rparr>))
         (\<lambda>u. True)"
    by (auto simp: rel_defs split: option.splits)
qed

lemma quiet_logging_write_agent_state:
  "state_inv data \<Longrightarrow> valid (quiet aid) (logging_write_agent_state env aid data) (\<lambda>u. True)"
  unfolding logging_write_agent_state_def
  by (rule valid_bind [OF is_preorder_quiet quiet_ensure_agent_dir]) (rule quiet_tasks_write_agent_state)

lemma quiet_append_agent_log: "valid (quiet aid) (append_agent_log m env aid line) (\<lambda>u. True)"
  by (cases m) (simp_all add: quiet_tasks_append_agent_log quiet_logging_append_agent_log)

lemma quiet_write_agent_state:
  "state_inv data \<Longrightarrow> valid (quiet aid) (write_agent_state m env aid data) (\<lambda>u. True)"
  by (cases m) (simp_all add: quiet_tasks_write_agent_state quiet_logging_write_agent_state)

lemma quiet_log_event: "valid (quiet aid) (log_event m env aid what) (\<lambda>u. True)"
  unfolding log_event_def
  by (rule valid_bind [OF is_preorder_quiet quiet_time_asctime]) (rule quiet_append_agent_log)

lemma quiet_read_input: "valid (quiet aid) (read_input env aid) (\<lambda>p. True)"
  by (auto simp: rel_defs read_input_def split: option.splits sum.splits)

lemma quiet_lift: "valid (quiet aid) (lift r) (\<lambda>x. r = Inr x)"
  by (rule valid_lift [OF is_preorder_quiet]) simp

lemma quiet_lift_any: "valid (quiet aid) (lift r) (\<lambda>x. True)"
  by (rule valid_lift [OF is_preorder_quiet]) simp

lemma quiet_tasks_call_ollama: "valid (quiet aid) (tasks_call_ollama env prompt) (\<lambda>g. True)"
  unfolding tasks_call_ollama_def
  by (intro valid_bind [OF is_preorder_quiet quiet_http_post]
            valid_bind [OF is_preorder_quiet quiet_lift_any] quiet_lift_any)

lemma quiet_app_call_ollama: "valid (quiet aid) (app_call_ollama env prompt) (\<lambda>g. True)"
  unfolding app_call_ollama_def Let_def
  by (intro valid_try_except [OF is_preorder_quiet] valid_bind [OF is_preorder_quiet quiet_http_post]
            valid_if valid_raise [OF is_preorder_quiet] valid_return [OF is_preorder_quiet]
            quiet_lift_any TrueI)

lemma quiet_call_ollama: "valid (quiet aid) (call_ollama m env prompt) (\<lambda>g. True)"
  by (cases m) (simp_all add: quiet_tasks_call_ollama quiet_app_call_ollama)

lemma quiet_call_flowise: "valid (quiet aid) (call_flowise env flow_id input_data) (\<lambda>g. True)"
  unfolding call_flowise_def
  by (intro valid_if valid_raise [OF is_preorder_quiet] valid_bind [OF is_preorder_quiet quiet_http_post]
            valid_bind [OF is_preorder_quiet quiet_lift_any] quiet_lift_any)

lemma quiet_flowise_block: "valid (quiet aid) (flowise_block m env aid payload) (\<lambda>f. True)"
  unfolding flowise_block_def
  by (intro valid_bind [OF is_preorder_quiet quiet_lift_any] valid_if
            valid_bind [OF is_preorder_quiet quiet_log_event]
            valid_bind [OF is_preorder_quiet quiet_call_flowise]
            valid_try_except [OF is_preorder_quiet] valid_return [OF is_preorder_quiet] TrueI)

lemma is_dict_adapter_result:
  "is_dict (JObj [(''returncode'', JInt rc), (''stdout'', JStr so), (''stderr'', JStr se)])"
  by simp

lemma quiet_run_tool_adapter:
  "valid (quiet aid) (run_tool_adapter m env aid adapter params) is_dict"
  unfolding run_tool_adapter_def
  by (cases adapter)
     (auto intro!: valid_if valid_raise [OF is_preorder_quiet] valid_return [OF is_preorder_quiet]
                   valid_bind [OF is_preorder_quiet quiet_append_agent_log]
                   valid_bind [OF is_preorder_quiet quiet_lift_any])

lemma quiet_adapter_failed: "valid (quiet aid) (adapter_failed m env aid out e) (\<lambda>r. True)"
  unfolding adapter_failed_def
  by (intro valid_bind [OF is_preorder_quiet quiet_log_event] valid_return [OF is_preorder_quiet] TrueI)

lemma quiet_adapter_try: "valid (quiet aid) (adapter_try m env aid adapter params out) (\<lambda>r. True)"
  unfolding adapter_try_def Let_def
  by (intro valid_try_except_else [OF is_preorder_quiet quiet_run_tool_adapter] quiet_adapter_failed
            valid_try_except_else [OF is_preorder_quiet, where P = "\<lambda>u. True"]
            valid_bind [OF is_preorder_quiet quiet_lift_any] quiet_log_event
            valid_return [OF is_preorder_quiet] TrueI)

lemma quiet_adapter_block: "valid (quiet aid) (adapter_block m env aid payload out) (\<lambda>r. True)"
  unfolding adapter_block_def
  by (intro valid_bind [OF is_preorder_quiet quiet_lift_any] valid_if quiet_adapter_try
            valid_bind [OF is_preorder_quiet quiet_log_event] valid_return [OF is_preorder_quiet] TrueI)

lemma evolves_write_output:
  "output_inv out \<Longrightarrow> valid (evolves aid) (write_output env aid out) (\<lambda>u. True)"
  by (auto simp: rel_defs write_output_def split: option.splits)

lemma io_bind_unfold:
  "io_bind m f w = (case fst (m w) of Inl e \<Rightarrow> (Inl e, snd (m w)) | Inr x \<Rightarrow> f x (snd (m w)))"
  by (cases "m w") (simp add: io_bind_def split: sum.splits)

lemma try_except_unfold:
  "try_except m h w = (case fst (m w) of Inl e \<Rightarrow> h e (snd (m w)) | Inr x \<Rightarrow> (Inr x, snd (m w)))"
  by (cases "m w") (simp add: try_except_def split: sum.splits)

lemma try_except_else_unfold:
  "try_except_else m h g w = (case fst (m w) of Inl e \<Rightarrow> h e (snd (m w)) | Inr x \<Rightarrow> g x (snd (m w)))"
  by (cases "m w") (simp add: try_except_else_def split: sum.splits)

lemma validD_rel: "valid R m Q \<Longrightarrow> R w (snd (m w))"
  by (simp add: valid_def)

lemma validD_val: "valid R m Q \<Longrightarrow> fst (m w) = Inr x \<Longrightarrow> Q x"
  by (simp add: valid_def)

lemma quiet_dir_ok: "quiet aid w w' \<Longrightarrow> dir_ok aid w \<Longrightarrow> dir_ok aid w'"
  by (simp add: quiet_def evolves_def)

lemma quiet_input_of: "quiet aid w w' \<Longrightarrow> input_of aid w' = input_of aid w"
  by (simp add: quiet_def evolves_def)

lemma quiet_evolves: "quiet aid w w' \<Longrightarrow> evolves aid w w'"
  by (simp add: quiet_def)

lemma quiet_frame: "quiet aid w w' \<Longrightarrow> frame aid w w'"
  by (simp add: quiet_def)

lemma quiet_trans: "quiet aid a b \<Longrightarrow> quiet aid b c \<Longrightarrow> quiet aid a c"
  using is_preorder_quiet [of aid] unfolding is_preorder_def by blast


subsection \<open>When the helpers succeed and when they fail\<close>

lemma append_agent_log_ok: "dir_ok aid w \<Longrightarrow> fst (append_agent_log m env aid line w) = Inr ()"
  by (cases m)
     (auto simp: dir_ok_def tasks_append_agent_log_def logging_append_agent_log_def
        ensure_agent_dir_def io_bind_def split: option.splits)

lemma append_agent_log_app: "fst (logging_append_agent_log env aid line w) = Inr ()"
  by (auto simp: logging_append_agent_log_def ensure_agent_dir_def io_bind_def split: option.splits)

lemma append_agent_log_tasks_missing:
  "agents w aid = None \<Longrightarrow>
   tasks_append_agent_log env aid line w = (Inl (no_such_file (agent_dir env aid @ ''/log.txt'')), w)"
  by (simp add: tasks_append_agent_log_def)

lemma log_event_ok: "dir_ok aid w \<Longrightarrow> fst (log_event m env aid what w) = Inr ()"
  unfolding log_event_def
  by (simp add: io_bind_def time_asctime_def append_agent_log_ok dir_ok_def split: prod.splits sum.splits)

lemma log_event_app: "fst (log_event AppPy env aid what w) = Inr ()"
  unfolding log_event_def
  by (simp add: io_bind_def time_asctime_def append_agent_log_app split: prod.splits sum.splits)

lemma log_event_tasks_missing:
  "agents w aid = None \<Longrightarrow>
   log_event TasksPy env aid what w =
     (Inl (no_such_file (agent_dir env aid @ ''/log.txt'')), w\<lparr>clock := Suc (clock w)\<rparr>)"
  unfolding log_event_def
  by (simp add: io_bind_def time_asctime_def append_agent_log_tasks_missing)

lemma log_event_fails:
  assumes "fst (log_event m env aid what w) = Inl e"
  shows "m = TasksPy \<and> agents w aid = None"
proof -
  from assms have "\<not> dir_ok aid w"
    using log_event_ok [of aid w m env what] by auto
  moreover from assms have "m \<noteq> AppPy"
    using log_event_app [of env aid what w] by auto
  ultimately show ?thesis
    by (cases m) (simp_all add: dir_ok_def)
qed

lemma log_event_fails_again:
  assumes "fst (log_event m env aid what w) = Inl e"
  shows "\<exists>e'. fst (log_event m env aid what' (snd (log_event m env aid what w))) = Inl e'"
proof -
  from log_event_fails [OF assms] have m: "m = TasksPy" and none: "agents w aid = None"
    by simp_all
  have "snd (log_event m env aid what w) = w\<lparr>clock := Suc (clock w)\<rparr>"
    by (simp add: m log_event_tasks_missing [OF none])
  moreover have "agents (w\<lparr>clock := Suc (clock w)\<rparr>) aid = None"
    by (simp add: none)
  ultimately show ?thesis
    by (simp add: m log_event_tasks_missing)
qed

lemma write_agent_state_ok: "dir_ok aid w \<Longrightarrow> fst (write_agent_state m env aid data w) = Inr ()"
  by (cases m)
     (auto simp: dir_ok_def tasks_write_agent_state_def logging_write_agent_state_def
        ensure_agent_dir_def io_bind_def split: option.splits)

lemma write_agent_state_state_of:
  "dir_ok aid w \<Longrightarrow> state_of aid (snd (write_agent_state m env aid data w)) = Some data"
  by (cases m)
     (auto simp: dir_ok_def state_of_def tasks_write_agent_state_def logging_write_agent_state_def
        ensure_agent_dir_def io_bind_def split: option.splits)

lemma write_agent_state_tasks_missing:
  "agents w aid = None \<Longrightarrow>
   tasks_write_agent_state env aid data w =
     (Inl (no_such_file (agent_dir env aid @ ''/state.json'')), w)"
  by (simp add: tasks_write_agent_state_def)

lemma log_event_state_of: "state_of aid (snd (log_event m env aid what w)) = state_of aid w"
  by (cases m)
     (auto simp: log_event_def state_of_def io_bind_def time_asctime_def
        tasks_append_agent_log_def logging_append_agent_log_def ensure_agent_dir_def empty_dir_def
        split: option.splits)

lemma write_output_ok:
  "dir_ok aid w \<Longrightarrow> fst (write_output env aid out w) = Inr () \<and>
     dir_ok aid (snd (write_output env aid out w)) \<and>
     output_of aid (snd (write_output env aid out w)) = Some out"
  by (auto simp: dir_ok_def output_of_def write_output_def split: option.splits)


lemma write_output_dir_ok:
  "fst (write_output env aid out w) = Inr u \<Longrightarrow> dir_ok aid (snd (write_output env aid out w))"
  by (auto simp: write_output_def dir_ok_def split: option.splits)

subsection \<open>The last three statements of the body\<close>

lemma state_inv_running: "state_inv running_state"
  by (simp add: state_inv_def running_state_def)

lemma state_inv_completed: "state_inv completed_state"
  by (simp add: state_inv_def completed_state_def)

lemma state_inv_failed: "state_inv (failed_state e)"
  by (simp add: state_inv_def failed_state_def)

lemma evolves_finish:
  "output_inv (JObj out) \<Longrightarrow> valid (evolves aid) (finish m env aid out) (\<lambda>u. True)"
  unfolding finish_def
  by (intro valid_bind [OF is_preorder_evolves evolves_write_output]
        valid_bind [OF is_preorder_evolves valid_weaken [OF quiet_write_agent_state [OF state_inv_completed]]]
        valid_weaken [OF quiet_log_event] quiet_evolves TrueI)

lemma finish_ok:
  assumes ok: "dir_ok aid w"
  shows "fst (finish m env aid out w) = Inr () \<and>
         state_of aid (snd (finish m env aid out w)) = Some completed_state \<and>
         output_of aid (snd (finish m env aid out w)) = Some (JObj out)"
proof -
  let ?w1 = "snd (write_output env aid (JObj out) w)"
  let ?w2 = "snd (write_agent_state m env aid completed_state ?w1)"
  let ?w3 = "snd (log_event m env aid ''Agent completed'' ?w2)"
  from write_output_ok [OF ok, of env "JObj out"]
  have s1: "fst (write_output env aid (JObj out) w) = Inr ()" and ok1: "dir_ok aid ?w1"
    and o1: "output_of aid ?w1 = Some (JObj out)" by simp_all
  have s2: "fst (write_agent_state m env aid completed_state ?w1) = Inr ()"
    by (rule write_agent_state_ok [OF ok1])
  have q2: "quiet aid ?w1 ?w2"
    by (rule validD_rel [OF quiet_write_agent_state [OF state_inv_completed]])
  have ok2: "dir_ok aid ?w2" by (rule quiet_dir_ok [OF q2 ok1])
  have s3: "fst (log_event m env aid ''Agent completed'' ?w2) = Inr ()"
    by (rule log_event_ok [OF ok2])
  have q3: "quiet aid ?w2 ?w3" by (rule validD_rel [OF quiet_log_event])
  have run: "finish m env aid out w = (Inr (), ?w3)"
    unfolding finish_def
    by (simp add: io_bind_unfold s1 s2 s3 prod_eq_iff)
  have "state_of aid ?w3 = Some completed_state"
    by (simp add: log_event_state_of write_agent_state_state_of [OF ok1])
  moreover have "output_of aid ?w3 = Some (JObj out)"
    using quiet_frame [OF q3] quiet_frame [OF q2] o1 by (simp add: frame_def)
  ultimately show ?thesis by (simp add: run)
qed


subsection \<open>The adapter block and the whole body\<close>

lemma valid_value:
  "valid R m (\<lambda>x. True) \<Longrightarrow> (\<And>w x. fst (m w) = Inr x \<Longrightarrow> Q x) \<Longrightarrow> valid R m Q"
  by (simp add: valid_def)

lemma evolves_of_quiet: "valid (quiet aid) m Q \<Longrightarrow> valid (evolves aid) m Q"
  by (erule valid_weaken) (simp_all add: quiet_def)

lemma adapter_failed_value:
  "fst (adapter_failed m env aid out e w) = Inr out' \<Longrightarrow>
   out' = AList.update ''adapter_error'' (JStr (msg e)) out"
  by (auto simp: adapter_failed_def io_bind_unfold io_return_def split: sum.splits)

lemma adapter_failed_after_failed_log:
  assumes "fst (log_event m env aid what w) = Inl e"
  shows "fst (adapter_failed m env aid out e' (snd (log_event m env aid what w))) \<noteq> Inr out'"
proof -
  from log_event_fails_again [OF assms, of "''Adapter failed: '' @ msg e'"]
  obtain e2 where "fst (log_event m env aid (''Adapter failed: '' @ msg e')
                         (snd (log_event m env aid what w))) = Inl e2" ..
  then show ?thesis
    by (simp add: adapter_failed_def io_bind_unfold)
qed

lemma adapter_try_value:
  assumes "fst (adapter_try m env aid adapter params out w) = Inr out'"
  shows "(\<exists>e. out' = AList.update ''adapter_error'' (JStr (msg e)) out) \<or>
         (\<exists>r. out' = AList.update ''adapter_result'' r out)"
proof (cases "fst (run_tool_adapter m env aid adapter params w)")
  case (Inl e)
  with assms have "fst (adapter_failed m env aid out e
                          (snd (run_tool_adapter m env aid adapter params w))) = Inr out'"
    by (simp add: adapter_try_def try_except_else_unfold)
  from adapter_failed_value [OF this] show ?thesis by blast
next
  case (Inr res)
  let ?w1 = "snd (run_tool_adapter m env aid adapter params w)"
  let ?out1 = "AList.update ''adapter_result'' res out"
  from validD_val [OF quiet_run_tool_adapter Inr] obtain kvs where res: "res = JObj kvs"
    by (cases res) simp_all
  obtain rc where rc: "dict_get res ''returncode'' = Inr rc"
    by (simp add: res dict_get_def)
  let ?what = "''Adapter finished rc='' @ py_str env rc"
  show ?thesis
  proof (cases "fst (log_event m env aid ?what ?w1)")
    case (Inl e)
    from adapter_failed_after_failed_log [OF Inl, of ?out1 e out'] assms Inr rc Inl
    show ?thesis
      by (simp add: adapter_try_def try_except_else_unfold io_bind_unfold lift_def Let_def)
  next
    case Inr2: (Inr u)
    with assms Inr rc have "out' = ?out1"
      by (simp add: adapter_try_def try_except_else_unfold io_bind_unfold lift_def io_return_def Let_def)
    then show ?thesis by blast
  qed
qed

lemma adapter_block_value:
  assumes "fst (adapter_block m env aid payload out w) = Inr out'"
  shows "out' = out \<or> (\<exists>e. out' = AList.update ''adapter_error'' (JStr (msg e)) out) \<or>
         (\<exists>r. out' = AList.update ''adapter_result'' r out)"
  using assms adapter_try_value [of m env aid _ _ out _ out']
  by (auto simp: adapter_block_def io_bind_unfold lift_def io_return_def
           split: sum.splits if_splits)

lemma adapter_block_output_inv:
  "adapter_free out \<Longrightarrow> fst (adapter_block m env aid payload out w) = Inr out' \<Longrightarrow>
   output_inv (JObj out')"
  by (drule adapter_block_value)
     (auto simp: adapter_free_def output_inv_def update_conv')

lemma evolves_after_ollama:
  "valid (evolves aid) (after_ollama m env aid payload flow_out gen) (\<lambda>u. True)"
  unfolding after_ollama_def
proof (intro valid_bind [OF is_preorder_evolves evolves_of_quiet [OF quiet_log_event]]
             valid_bind [OF is_preorder_evolves evolves_of_quiet [OF quiet_time_asctime]])
  fix completed_at
  let ?out = "[(''model_response'', gen), (''flowise'', flow_out), (''completed_at'', JStr completed_at)]"
  have free: "adapter_free ?out" by (simp add: adapter_free_def)
  have "valid (evolves aid) (adapter_block m env aid payload ?out) (\<lambda>out'. output_inv (JObj out'))"
    by (rule evolves_of_quiet [OF valid_value [OF quiet_adapter_block]])
       (rule adapter_block_output_inv [OF free])
  then show "valid (evolves aid)
          (io_bind (adapter_block m env aid payload ?out) (finish m env aid)) (\<lambda>u. True)"
    by (rule valid_bind [OF is_preorder_evolves]) (rule evolves_finish)
qed

lemma evolves_agent_body: "valid (evolves aid) (agent_body m env aid) (\<lambda>u. True)"
  unfolding agent_body_def
  by (intro valid_bind [OF is_preorder_evolves evolves_of_quiet [OF quiet_log_event]]
            valid_bind [OF is_preorder_evolves evolves_of_quiet [OF quiet_write_agent_state [OF state_inv_running]]]
            valid_bind [OF is_preorder_evolves evolves_of_quiet [OF quiet_read_input]]
            valid_bind [OF is_preorder_evolves evolves_of_quiet [OF quiet_flowise_block]]
            valid_bind [OF is_preorder_evolves evolves_of_quiet [OF quiet_lift_any]]
            valid_bind [OF is_preorder_evolves evolves_of_quiet [OF quiet_call_ollama]]
            evolves_after_ollama)

lemma quiet_agent_failed: "valid (quiet aid) (agent_failed m env aid e) (\<lambda>u. True)"
proof (cases m)
  case TasksPy
  show ?thesis
    unfolding TasksPy agent_failed.simps
    by (intro valid_bind [OF is_preorder_quiet quiet_write_agent_state [OF state_inv_failed]]
              valid_bind [OF is_preorder_quiet quiet_log_event] valid_raise [OF is_preorder_quiet])
next
  case AppPy
  have guarded: "valid (quiet aid)
      (try_except (write_agent_state AppPy env aid (failed_state e)) (\<lambda>e'. io_return ()))
      (\<lambda>u. True)"
    by (intro valid_try_except [OF is_preorder_quiet quiet_write_agent_state [OF state_inv_failed]]
              valid_return [OF is_preorder_quiet] TrueI)
  show ?thesis
    unfolding AppPy agent_failed.simps
    by (intro valid_bind [OF is_preorder_quiet guarded]
              valid_bind [OF is_preorder_quiet quiet_log_event] valid_raise [OF is_preorder_quiet])
qed

lemma evolves_run_agent_background:
  "valid (evolves aid) (run_agent_background m env aid) (\<lambda>u. True)"
  unfolding run_agent_background_def
  by (rule valid_try_except [OF is_preorder_evolves evolves_agent_body])
     (rule evolves_of_quiet [OF quiet_agent_failed])

subsection \<open>A run that raises has not written the output\<close>






subsection \<open>Running the body step by step\<close>

lemma call_ollama_run:
  "call_ollama m env prompt w =
     (ollama_result m env prompt,
      w\<lparr>history := history w @ [Posted (ollama_url env) (ollama_payload env prompt)]\<rparr>)"
  by (cases m)
     (auto simp: ollama_result_def tasks_call_ollama_def app_call_ollama_def io_bind_def
        try_except_def http_post_def lift_def io_raise_def io_return_def Let_def
        split: sum.splits)

lemma call_flowise_run:
  "truthy flow_id \<Longrightarrow>
   call_flowise env flow_id input_data w =
     (flowise_result env flow_id input_data,
      w\<lparr>history := history w @ [Posted (FLOWISE_RUN_URL env)
                                   (JObj [(''flow_id'', flow_id), (''input'', input_data)])]\<rparr>)"
  by (auto simp: flowise_result_def call_flowise_def io_bind_def http_post_def lift_def
        split: sum.splits)

lemma build_prompt_object:
  "build_prompt env (JObj kvs) flow_out = Inr (prompt_sent env kvs flow_out)"
  by (simp add: build_prompt_def prompt_sent_def task_text_def lookup_def dict_get_def py_or_def
        Let_def)

lemma dir_ok_history [simp]: "dir_ok aid (w\<lparr>history := h\<rparr>) = dir_ok aid w"
  by (simp add: dir_ok_def)

lemma dir_ok_clock [simp]: "dir_ok aid (w\<lparr>clock := c\<rparr>) = dir_ok aid w"
  by (simp add: dir_ok_def)

lemma log_event_dir_ok: "dir_ok aid w \<Longrightarrow> dir_ok aid (snd (log_event m env aid what w))"
  by (rule quiet_dir_ok [OF validD_rel [OF quiet_log_event]])

lemma flowise_block_ok:
  assumes ok: "dir_ok aid w"
  shows "fst (flowise_block m env aid (JObj kvs) w) = Inr (flow_output env kvs)"
proof (cases "truthy (lookup kvs ''flow_id'')")
  case False
  then show ?thesis
    by (simp add: flowise_block_def flow_output_def io_bind_unfold lift_def dict_get_def
          lookup_def io_return_def)
next
  case True
  have s1: "\<And>what. fst (log_event m env aid what w) = Inr ()"
    by (rule log_event_ok [OF ok])
  have s2: "\<And>what what' h.
      fst (log_event m env aid what' (snd (log_event m env aid what w)\<lparr>history := h\<rparr>)) = Inr ()"
    by (rule log_event_ok) (simp add: log_event_dir_ok [OF ok])
  show ?thesis
    using True
    by (simp add: flowise_block_def flow_output_def io_bind_unfold try_except_unfold lift_def
          dict_get_def lookup_def [symmetric] s1 call_flowise_run s2 io_return_def
          split: sum.splits)
qed

lemma reach_ollama:
  assumes ok: "dir_ok aid w"
    and inp: "input_of aid w = Some txt"
    and loads: "json_loads env txt = Inr (JObj kvs)"
  shows "\<exists>w4. quiet aid w w4 \<and> dir_ok aid w4 \<and>
           agent_body m env aid w =
             io_bind (call_ollama m env (prompt_sent env kvs (flow_output env kvs)))
               (after_ollama m env aid (JObj kvs) (flow_output env kvs)) w4"
proof -
  let ?w1 = "snd (log_event m env aid ''Agent started'' w)"
  let ?w2 = "snd (write_agent_state m env aid running_state ?w1)"
  let ?w3 = "snd (flowise_block m env aid (JObj kvs) ?w2)"
  let ?w4 = "snd (log_event m env aid ''Calling Ollama'' ?w3)"
  have q1: "quiet aid w ?w1" by (rule validD_rel [OF quiet_log_event])
  have q2: "quiet aid ?w1 ?w2"
    by (rule validD_rel [OF quiet_write_agent_state [OF state_inv_running]])
  have q3: "quiet aid ?w2 ?w3" by (rule validD_rel [OF quiet_flowise_block])
  have q4: "quiet aid ?w3 ?w4" by (rule validD_rel [OF quiet_log_event])
  have ok1: "dir_ok aid ?w1" by (rule quiet_dir_ok [OF q1 ok])
  have ok2: "dir_ok aid ?w2" by (rule quiet_dir_ok [OF q2 ok1])
  have ok3: "dir_ok aid ?w3" by (rule quiet_dir_ok [OF q3 ok2])
  have ok4: "dir_ok aid ?w4" by (rule quiet_dir_ok [OF q4 ok3])
  have s1: "fst (log_event m env aid ''Agent started'' w) = Inr ()"
    by (rule log_event_ok [OF ok])
  have s2: "fst (write_agent_state m env aid running_state ?w1) = Inr ()"
    by (rule write_agent_state_ok [OF ok1])
  have "input_of aid ?w2 = Some txt"
    using quiet_input_of [OF q1] quiet_input_of [OF q2] inp by simp
  then have s3: "read_input env aid ?w2 = (Inr (JObj kvs), ?w2)"
    by (simp add: read_input_def input_of_def loads)
  have s4: "fst (flowise_block m env aid (JObj kvs) ?w2) = Inr (flow_output env kvs)"
    by (rule flowise_block_ok [OF ok2])
  have s5: "fst (log_event m env aid ''Calling Ollama'' ?w3) = Inr ()"
    by (rule log_event_ok [OF ok3])
  have "agent_body m env aid w =
          io_bind (call_ollama m env (prompt_sent env kvs (flow_output env kvs)))
            (after_ollama m env aid (JObj kvs) (flow_output env kvs)) ?w4"
    unfolding agent_body_def
    apply (subst io_bind_unfold, simp only: s1 sum.case)
    apply (subst io_bind_unfold, simp only: s2 sum.case)
    apply (subst io_bind_unfold, simp only: s3 fst_conv snd_conv sum.case)
    apply (subst io_bind_unfold, simp only: s4 sum.case)
    apply (subst io_bind_unfold, simp only: lift_def build_prompt_object fst_conv snd_conv sum.case)
    apply (subst io_bind_unfold, simp only: s5 sum.case)
    done
  moreover have "quiet aid w ?w4"
    by (rule quiet_trans [OF quiet_trans [OF quiet_trans [OF q1 q2] q3] q4])
  ultimately show ?thesis using ok4 by blast
qed

lemma adapter_block_none:
  "\<not> truthy (lookup kvs ''tool'') \<Longrightarrow> adapter_block m env aid (JObj kvs) out w = (Inr out, w)"
  by (simp add: adapter_block_def io_bind_unfold lift_def dict_get_def lookup_def io_return_def)

lemma adapter_failed_ok:
  "dir_ok aid w \<Longrightarrow>
   fst (adapter_failed m env aid out e w) = Inr (AList.update ''adapter_error'' (JStr (msg e)) out)"
  by (simp add: adapter_failed_def io_bind_unfold log_event_ok io_return_def)

lemma adapter_try_ok:
  assumes ok: "dir_ok aid w"
  shows "\<exists>out'. fst (adapter_try m env aid adapter params out w) = Inr out'"
proof -
  let ?w1 = "snd (run_tool_adapter m env aid adapter params w)"
  have ok1: "dir_ok aid ?w1"
    by (rule quiet_dir_ok [OF validD_rel [OF quiet_run_tool_adapter] ok])
  show ?thesis
  proof (cases "fst (run_tool_adapter m env aid adapter params w)")
    case (Inl e)
    then show ?thesis
      by (simp add: adapter_try_def try_except_else_unfold adapter_failed_ok [OF ok1])
  next
    case (Inr res)
    from validD_val [OF quiet_run_tool_adapter Inr] obtain kvs where "res = JObj kvs"
      by (cases res) simp_all
    then obtain rc where rc: "dict_get res ''returncode'' = Inr rc"
      by (simp add: dict_get_def)
    have "\<And>what. fst (log_event m env aid what ?w1) = Inr ()"
      by (rule log_event_ok [OF ok1])
    with Inr rc show ?thesis
      by (simp add: adapter_try_def try_except_else_unfold io_bind_unfold lift_def Let_def
            io_return_def)
  qed
qed

lemma adapter_block_ok:
  assumes ok: "dir_ok aid w"
    and tool: "\<not> truthy (lookup kvs ''tool'') \<or> is_dict (lookup kvs ''tool'')"
  shows "\<exists>out'. fst (adapter_block m env aid (JObj kvs) out w) = Inr out'"
proof (cases "truthy (lookup kvs ''tool'')")
  case False
  then show ?thesis by (simp add: adapter_block_none)
next
  case True
  with tool obtain tkvs where t: "lookup kvs ''tool'' = JObj tkvs"
    by (cases "lookup kvs ''tool''") simp_all
  have ok1: "\<And>what. dir_ok aid (snd (log_event m env aid what w))"
    by (rule log_event_dir_ok [OF ok])
  have s1: "\<And>what. fst (log_event m env aid what w) = Inr ()"
    by (rule log_event_ok [OF ok])
  from True t show ?thesis
    using adapter_try_ok [OF ok1]
    by (simp add: adapter_block_def io_bind_unfold lift_def dict_get_def lookup_def [symmetric] s1)
qed


lemma after_ollama_ok:
  assumes ok: "dir_ok aid w"
    and adapter: "\<And>w1 t. dir_ok aid w1 \<Longrightarrow>
       \<exists>out'. fst (adapter_block m env aid payload
                     [(''model_response'', gen), (''flowise'', flow_out), (''completed_at'', JStr t)] w1)
                = Inr out' \<and> Q out'"
  shows "\<exists>out'. fst (after_ollama m env aid payload flow_out gen w) = Inr () \<and>
           state_of aid (snd (after_ollama m env aid payload flow_out gen w)) = Some completed_state \<and>
           output_of aid (snd (after_ollama m env aid payload flow_out gen w)) = Some (JObj out') \<and>
           Q out'"
proof -
  let ?w1 = "snd (log_event m env aid ''Ollama responded'' w)"
  let ?t = "asctime env (clock ?w1)"
  let ?w2 = "?w1\<lparr>clock := Suc (clock ?w1)\<rparr>"
  let ?out = "[(''model_response'', gen), (''flowise'', flow_out), (''completed_at'', JStr ?t)]"
  let ?w3 = "snd (adapter_block m env aid payload ?out ?w2)"
  have s1: "fst (log_event m env aid ''Ollama responded'' w) = Inr ()"
    by (rule log_event_ok [OF ok])
  have ok2: "dir_ok aid ?w2"
    using log_event_dir_ok [OF ok] by simp
  from adapter [OF ok2] obtain out' where
    s3: "fst (adapter_block m env aid payload ?out ?w2) = Inr out'" and Q: "Q out'"
    by blast
  have ok3: "dir_ok aid ?w3"
    by (rule quiet_dir_ok [OF validD_rel [OF quiet_adapter_block] ok2])
  have run: "after_ollama m env aid payload flow_out gen w = finish m env aid out' ?w3"
    unfolding after_ollama_def
    apply (subst io_bind_unfold, simp only: s1 sum.case)
    apply (subst io_bind_unfold, simp only: time_asctime_def fst_conv snd_conv sum.case)
    apply (subst io_bind_unfold, simp only: s3 sum.case)
    done
  from finish_ok [OF ok3, of m env out'] Q show ?thesis
    unfolding run by blast
qed

lemma run_completes:
  assumes ok: "dir_ok aid w"
    and inp: "input_of aid w = Some txt"
    and loads: "json_loads env txt = Inr (JObj kvs)"
    and llm: "ollama_result m env (prompt_sent env kvs (flow_output env kvs)) = Inr gen"
    and adapter: "\<And>w1 t. dir_ok aid w1 \<Longrightarrow>
       \<exists>out'. fst (adapter_block m env aid (JObj kvs)
                     [(''model_response'', gen), (''flowise'', flow_output env kvs),
                      (''completed_at'', JStr t)] w1)
                = Inr out' \<and> Q out'"
  shows "\<exists>out'. fst (run_agent_background m env aid w) = Inr () \<and>
           state_of aid (snd (run_agent_background m env aid w)) = Some completed_state \<and>
           output_of aid (snd (run_agent_background m env aid w)) = Some (JObj out') \<and>
           Q out'"
proof -
  let ?prompt = "prompt_sent env kvs (flow_output env kvs)"
  from reach_ollama [OF ok inp loads] obtain w4 where
    ok4: "dir_ok aid w4" and
    body: "agent_body m env aid w =
             io_bind (call_ollama m env ?prompt)
               (after_ollama m env aid (JObj kvs) (flow_output env kvs)) w4"
    by blast
  let ?w5 = "w4\<lparr>history := history w4 @ [Posted (ollama_url env) (ollama_payload env ?prompt)]\<rparr>"
  have ok5: "dir_ok aid ?w5" using ok4 by simp
  have body': "agent_body m env aid w = after_ollama m env aid (JObj kvs) (flow_output env kvs) gen ?w5"
    unfolding body by (simp add: io_bind_unfold call_ollama_run llm)
  from after_ollama_ok [OF ok5 adapter]
  obtain out' where
    "fst (after_ollama m env aid (JObj kvs) (flow_output env kvs) gen ?w5) = Inr ()"
    "state_of aid (snd (after_ollama m env aid (JObj kvs) (flow_output env kvs) gen ?w5)) = Some completed_state"
    "output_of aid (snd (after_ollama m env aid (JObj kvs) (flow_output env kvs) gen ?w5)) = Some (JObj out')"
    "Q out'"
    by blast
  then show ?thesis
    by (auto simp: run_agent_background_def try_except_unfold body')
qed


subsection \<open>The failure path\<close>

lemma tasks_run_missing_dir:
  assumes "agents w aid = None"
  shows "run_agent_background TasksPy env aid w =
           (Inl (no_such_file (agent_dir env aid @ ''/state.json'')), w\<lparr>clock := Suc (clock w)\<rparr>)"
proof -
  have body: "agent_body TasksPy env aid w =
      (Inl (no_such_file (agent_dir env aid @ ''/log.txt'')), w\<lparr>clock := Suc (clock w)\<rparr>)"
    unfolding agent_body_def
    by (simp add: io_bind_unfold log_event_tasks_missing [OF assms])
  have "agents (w\<lparr>clock := Suc (clock w)\<rparr>) aid = None"
    by (simp add: assms)
  then show ?thesis
    unfolding run_agent_background_def
    by (simp add: try_except_unfold body io_bind_unfold write_agent_state_tasks_missing)
qed

lemma write_agent_state_app:
  "fst (write_agent_state AppPy env aid data w) = Inr () \<and>
   state_of aid (snd (write_agent_state AppPy env aid data w)) = Some data"
  by (auto simp: state_of_def tasks_write_agent_state_def logging_write_agent_state_def
        ensure_agent_dir_def io_bind_def split: option.splits)

lemma write_agent_state_able:
  "dir_ok aid w \<or> m = AppPy \<Longrightarrow>
   fst (write_agent_state m env aid data w) = Inr () \<and>
   state_of aid (snd (write_agent_state m env aid data w)) = Some data"
  using write_agent_state_app write_agent_state_ok write_agent_state_state_of by blast

lemma log_event_able:
  "dir_ok aid w \<or> m = AppPy \<Longrightarrow> fst (log_event m env aid what w) = Inr ()"
  using log_event_app log_event_ok by blast

lemma agent_failed_records:
  assumes ok: "dir_ok aid w \<or> m = AppPy"
  shows "fst (agent_failed m env aid e w) = Inl e \<and>
         state_of aid (snd (agent_failed m env aid e w)) = Some (failed_state e)"
proof -
  let ?w1 = "snd (write_agent_state m env aid (failed_state e) w)"
  from write_agent_state_able [OF ok]
  have s1: "fst (write_agent_state m env aid (failed_state e) w) = Inr ()"
    and st: "state_of aid ?w1 = Some (failed_state e)" by simp_all
  have "quiet aid w ?w1"
    by (rule validD_rel [OF quiet_write_agent_state [OF state_inv_failed]])
  then have ok1: "dir_ok aid ?w1 \<or> m = AppPy"
    using ok quiet_dir_ok by blast
  have s2: "\<And>what. fst (log_event m env aid what ?w1) = Inr ()"
    by (rule log_event_able [OF ok1])
  have "agent_failed m env aid e w =
          (Inl e, snd (log_event m env aid (''Agent failed: '' @ msg e) ?w1))"
    using s1 s2
    by (cases m) (simp_all add: io_bind_unfold try_except_unfold io_raise_def)
  then show ?thesis
    by (simp add: log_event_state_of st)
qed

lemma failed_run_records_state:
  assumes ok: "dir_ok aid w \<or> m = AppPy"
    and fail: "fst (run_agent_background m env aid w) = Inl e"
  shows "state_of aid (snd (run_agent_background m env aid w)) = Some (failed_state e) \<and>
         fst (agent_body m env aid w) = Inl e"
proof (cases "fst (agent_body m env aid w)")
  case (Inr u)
  with fail show ?thesis by (simp add: run_agent_background_def try_except_unfold)
next
  case (Inl e')
  let ?w1 = "snd (agent_body m env aid w)"
  have run: "run_agent_background m env aid w = agent_failed m env aid e' ?w1"
    using Inl by (simp add: run_agent_background_def try_except_unfold)
  have "evolves aid w ?w1"
    by (rule validD_rel [OF evolves_agent_body])
  then have ok1: "dir_ok aid ?w1 \<or> m = AppPy"
    using ok by (auto simp: evolves_def)
  from agent_failed_records [OF ok1, of env e'] fail Inl show ?thesis
    by (simp add: run)
qed

lemma missing_input_fails:
  assumes ok: "dir_ok aid w \<or> m = AppPy"
    and inp: "input_of aid w = None"
  shows "fst (run_agent_background m env aid w) =
           Inl (Exc RuntimeError (''input.json missing for agent '' @ aid)) \<and>
         state_of aid (snd (run_agent_background m env aid w)) =
           Some (failed_state (Exc RuntimeError (''input.json missing for agent '' @ aid)))"
proof -
  let ?e = "Exc RuntimeError (''input.json missing for agent '' @ aid)"
  let ?w1 = "snd (log_event m env aid ''Agent started'' w)"
  let ?w2 = "snd (write_agent_state m env aid running_state ?w1)"
  have q1: "quiet aid w ?w1" by (rule validD_rel [OF quiet_log_event])
  have q2: "quiet aid ?w1 ?w2"
    by (rule validD_rel [OF quiet_write_agent_state [OF state_inv_running]])
  have s1: "fst (log_event m env aid ''Agent started'' w) = Inr ()"
    by (rule log_event_able [OF ok])
  have ok1: "dir_ok aid ?w1 \<or> m = AppPy" using ok quiet_dir_ok [OF q1] by blast
  have s2: "fst (write_agent_state m env aid running_state ?w1) = Inr ()"
    using write_agent_state_able [OF ok1] by simp
  have ok2: "dir_ok aid ?w2 \<or> m = AppPy" using ok1 quiet_dir_ok [OF q2] by blast
  have "input_of aid ?w2 = None"
    using quiet_input_of [OF q1] quiet_input_of [OF q2] inp by simp
  then have s3: "read_input env aid ?w2 = (Inl ?e, ?w2)"
    by (simp add: read_input_def input_of_def)
  have body: "agent_body m env aid w = (Inl ?e, ?w2)"
    unfolding agent_body_def
    apply (subst io_bind_unfold, simp only: s1 sum.case)
    apply (subst io_bind_unfold, simp only: s2 sum.case)
    apply (subst io_bind_unfold, simp only: s3 fst_conv snd_conv sum.case)
    done
  from agent_failed_records [OF ok2, of env ?e] show ?thesis
    by (simp add: run_agent_background_def try_except_unfold body)
qed

subsection \<open>Runs in the concrete environment\<close>

lemmas demo_defs = demo_env_def demo_world_def demo_dir_def demo_loads_def demo_response_def
  dumps_str_def escape_char_def

lemmas run_defs = run_agent_background_def agent_body_def after_ollama_def finish_def
  flowise_block_def adapter_block_def adapter_try_def adapter_failed_def run_tool_adapter_def
  build_prompt_def call_flowise_def tasks_call_ollama_def app_call_ollama_def
  log_event_def time_asctime_def read_input_def write_output_def
  tasks_append_agent_log_def tasks_write_agent_state_def logging_append_agent_log_def
  logging_write_agent_state_def ensure_agent_dir_def http_post_def raise_for_status_def
  resp_ok_def resp_json_def ollama_url_def ollama_payload_def
  io_bind_def try_except_def try_except_else_def io_return_def io_raise_def lift_def
  dict_get_def py_or_def rstrip_def is_space_def
  running_state_def completed_state_def failed_state_def empty_dir_def no_such_file_def
  agent_dir_def quoted_def

lemmas view_defs = state_of_def output_of_def input_of_def dir_ok_def lookup_def
  ollama_result_def flowise_result_def no_world_def flow_output_def task_text_def prompt_sent_def

lemma demo_run_a1:
  "fst (run_agent_background TasksPy demo_env ''a1'' demo_world) = Inr () \<and>
   state_of ''a1'' (snd (run_agent_background TasksPy demo_env ''a1'' demo_world)) = Some completed_state \<and>
   output_of ''a1'' (snd (run_agent_background TasksPy demo_env ''a1'' demo_world)) =
     Some (JObj [(''model_response'', JObj [(''response'', JStr ''ok'')]), (''flowise'', JNull),
                 (''completed_at'', JStr ''Wed Nov  4 12:00:00 2026'')]) \<and>
   history (snd (run_agent_background TasksPy demo_env ''a1'' demo_world)) =
     [WroteState ''a1'' running_state,
      Posted ''http://ollama:11434/api/generate'' (ollama_payload demo_env (JStr ''hi'')),
      WroteOutput ''a1'' (JObj [(''model_response'', JObj [(''response'', JStr ''ok'')]),
                               (''flowise'', JNull),
                               (''completed_at'', JStr ''Wed Nov  4 12:00:00 2026'')]),
      WroteState ''a1'' completed_state]"
  by (simp add: run_defs demo_defs view_defs)

lemma null_run_a1:
  "fst (run_agent_background TasksPy null_env ''a1'' demo_world) = Inr () \<and>
   state_of ''a1'' (snd (run_agent_background TasksPy null_env ''a1'' demo_world)) = Some completed_state \<and>
   output_of ''a1'' (snd (run_agent_background TasksPy null_env ''a1'' demo_world)) =
     Some (JObj [(''model_response'', JNull), (''flowise'', JNull),
                 (''completed_at'', JStr ''Wed Nov  4 12:00:00 2026'')])"
  by (simp add: run_defs demo_defs view_defs null_env_def)

lemma demo_run_a2:
  "fst (run_agent_background TasksPy demo_env ''a2'' demo_world) = Inr () \<and>
   state_of ''a2'' (snd (run_agent_background TasksPy demo_env ''a2'' demo_world)) = Some completed_state \<and>
   output_of ''a2'' (snd (run_agent_background TasksPy demo_env ''a2'' demo_world)) =
     Some (JObj [(''model_response'', JObj [(''response'', JStr ''ok'')]),
                 (''flowise'', JObj [(''error'', JStr ''Connection refused'')]),
                 (''completed_at'', JStr ''Wed Nov  4 12:00:00 2026'')])"
  by (simp add: run_defs demo_defs view_defs)

lemma down_run_a2:
  "fst (run_agent_background TasksPy down_env ''a2'' demo_world) =
     Inl (Exc RequestException ''Connection refused'') \<and>
   state_of ''a2'' (snd (run_agent_background TasksPy down_env ''a2'' demo_world)) =
     Some (failed_state (Exc RequestException ''Connection refused'')) \<and>
   output_of ''a2'' (snd (run_agent_background TasksPy down_env ''a2'' demo_world)) = None"
  by (simp add: run_defs demo_defs view_defs down_env_def)

lemma demo_run_a3:
  "fst (run_agent_background TasksPy demo_env ''a3'' demo_world) = Inr () \<and>
   state_of ''a3'' (snd (run_agent_background TasksPy demo_env ''a3'' demo_world)) = Some completed_state \<and>
   output_of ''a3'' (snd (run_agent_background TasksPy demo_env ''a3'' demo_world)) =
     Some (JObj [(''model_response'', JObj [(''response'', JStr ''ok'')]),
                 (''flowise'', JNull),
                 (''completed_at'', JStr ''Wed Nov  4 12:00:00 2026''),
                 (''adapter_error'', JStr ''Adapter not found: nope'')])"
  by (simp add: run_defs demo_defs view_defs)


lemma demo_run_a4:
  "fst (run_agent_background TasksPy demo_env ''a4'' demo_world) =
     Inl (Exc RuntimeError ''input.json missing for agent a4'') \<and>
   state_of ''a4'' (snd (run_agent_background TasksPy demo_env ''a4'' demo_world)) =
     Some (failed_state (Exc RuntimeError ''input.json missing for agent a4'')) \<and>
   history (snd (run_agent_background TasksPy demo_env ''a4'' demo_world)) =
     [WroteState ''a4'' running_state,
      WroteState ''a4'' (failed_state (Exc RuntimeError ''input.json missing for agent a4''))]"
  by (simp add: run_defs demo_defs view_defs)

lemma demo_run_ghost_app:
  "fst (run_agent_background AppPy demo_env ''ghost'' demo_world) =
     Inl (Exc RuntimeError ''input.json missing for agent ghost'') \<and>
   state_of ''ghost'' (snd (run_agent_background AppPy demo_env ''ghost'' demo_world)) =
     Some (failed_state (Exc RuntimeError ''input.json missing for agent ghost''))"
  by (simp add: run_defs demo_defs view_defs)

lemma demo_ollama:
  "ollama_result TasksPy demo_env (JStr ''hi'') = Inr (JObj [(''response'', JStr ''ok'')])"
  by (simp add: run_defs demo_defs view_defs)




subsection \<open>The missing directory in tasks.py\<close>

lemma tasks_body_missing_dir:
  "agents w aid = None \<Longrightarrow>
   agent_body TasksPy env aid w =
     (Inl (no_such_file (agent_dir env aid @ ''/log.txt'')), w\<lparr>clock := Suc (clock w)\<rparr>)"
  unfolding agent_body_def
  by (simp add: io_bind_unfold log_event_tasks_missing)

subsection \<open>The stream loops\<close>

lemma ndjson_parts_lines:
  "ndjson_parts env parts raws = parts @ concat (map (line_part env) raws)"
proof (induction raws arbitrary: parts)
  case Nil
  show ?case by simp
next
  case (Cons raw raws)
  show ?case
    by (cases "json_loads env raw")
       (auto simp: Cons.IH line_part_def dict_get_def split: json.splits option.splits)
qed





text \<open>
  The wrapper's loop gives the same text on the specification's example, but not on every
  stream of objects: a line whose \<open>response\<close> is the empty string, as the last line of a
  stream is, is appended whole.
\<close>

lemma llm_call_parts_example:
  "concat (llm_call_parts demo_env [] [''{\"response\":\"Hel\"}'', ''{\"response\":\"lo\"}'']) = ''Hello''"
  by (simp add: demo_env_def demo_loads_def)

lemma llm_call_parts_empty_response:
  assumes "raw \<noteq> []" and "json_loads env raw = Inr (JObj kvs)"
    and "map_of kvs ''response'' = Some (JStr [])"
  shows "concat (llm_call_parts env parts [raw]) = concat parts @ raw"
    and "concat (ndjson_parts env parts [raw]) = concat parts"
  using assms by (simp_all add: dict_get_def)

section \<open>Results\<close>

subsection \<open>Runs that complete\<close>

text \<open>
  Claim C1, as stated: with an \<^verbatim>\<open>input.json\<close> that holds only a prompt and an LLM call
  that returns normally, \<^verbatim>\<open>output.json\<close> has a non-null \<open>model_response\<close>. The runner
  stores what \<^verbatim>\<open>call_ollama\<close> returned, which is \<^verbatim>\<open>resp.json()\<close>: when the endpoint
  answers the document \<^verbatim>\<open>null\<close>, the call returns \<^verbatim>\<open>None\<close> without raising, the job
  completes and \<open>model_response\<close> is null.
\<close>

theorem null_model_response_counterexample:
  "input_of ''a1'' demo_world = Some ''{\"prompt\": \"hi\"}'' \<and>
   json_loads null_env ''{\"prompt\": \"hi\"}'' = Inr (JObj [(''prompt'', JStr ''hi'')]) \<and>
   ollama_result TasksPy null_env (JStr ''hi'') = Inr JNull \<and>
   fst (run_agent_background TasksPy null_env ''a1'' demo_world) = Inr () \<and>
   output_of ''a1'' (snd (run_agent_background TasksPy null_env ''a1'' demo_world)) =
     Some (JObj [(''model_response'', JNull), (''flowise'', JNull),
                 (''completed_at'', JStr ''Wed Nov  4 12:00:00 2026'')])"
proof -
  have "ollama_result TasksPy null_env (JStr ''hi'') = Inr JNull"
    by (simp add: run_defs demo_defs view_defs null_env_def)
  moreover have "input_of ''a1'' demo_world = Some ''{\"prompt\": \"hi\"}''"
    by (simp add: demo_defs view_defs)
  moreover have "json_loads null_env ''{\"prompt\": \"hi\"}'' = Inr (JObj [(''prompt'', JStr ''hi'')])"
    by (simp add: demo_defs null_env_def)
  ultimately show ?thesis using null_run_a1 by simp
qed

text \<open>
  Claim C1, amended: for every agent whose directory holds an \<^verbatim>\<open>input.json\<close> that decodes
  to an object with only a \<open>prompt\<close> string, if the LLM call returns \<open>gen\<close>, then
  \<^verbatim>\<open>run_agent_background\<close> returns normally, \<^verbatim>\<open>state.json\<close> is
  \<^verbatim>\<open>{"status": "completed", "progress": 100}\<close> and \<^verbatim>\<open>output.json\<close> is
  \<^verbatim>\<open>{"model_response": gen, "flowise": null, "completed_at": <time>}\<close>: \<open>model_response\<close>
  is the document the LLM call returned, non-null whenever that is. The prompt sent is the
  payload's, or \<^verbatim>\<open>"No task provided"\<close> when it is empty.
\<close>

theorem prompt_only_run_completes:
  assumes dir: "agents w aid = Some d"
    and inp: "input_json d = Some txt"
    and loads: "json_loads env txt = Inr (JObj [(''prompt'', JStr p)])"
    and llm: "ollama_result m env (JStr (if p = [] then ''No task provided'' else p)) = Inr gen"
  shows "fst (run_agent_background m env aid w) = Inr () \<and>
         state_of aid (snd (run_agent_background m env aid w)) = Some completed_state \<and>
         (\<exists>t. output_of aid (snd (run_agent_background m env aid w)) =
                Some (JObj [(''model_response'', gen), (''flowise'', JNull),
                            (''completed_at'', JStr t)]))"
proof -
  let ?kvs = "[(''prompt'', JStr p)]"
  have ok: "dir_ok aid w" and inp': "input_of aid w = Some txt"
    using dir inp by (simp_all add: dir_ok_def input_of_def)
  have flow: "flow_output env ?kvs = JNull"
    by (simp add: flow_output_def lookup_def)
  have prompt: "prompt_sent env ?kvs JNull = JStr (if p = [] then ''No task provided'' else p)"
    by (simp add: prompt_sent_def task_text_def lookup_def)
  have llm': "ollama_result m env (prompt_sent env ?kvs (flow_output env ?kvs)) = Inr gen"
    using llm by (simp add: flow prompt)
  have adapter: "\<And>w1 t. dir_ok aid w1 \<Longrightarrow>
      \<exists>out'. fst (adapter_block m env aid (JObj ?kvs)
                    [(''model_response'', gen), (''flowise'', flow_output env ?kvs),
                     (''completed_at'', JStr t)] w1) = Inr out' \<and>
             (\<exists>t. out' = [(''model_response'', gen), (''flowise'', JNull), (''completed_at'', JStr t)])"
    by (simp add: adapter_block_none lookup_def flow)
  from run_completes [OF ok inp' loads llm' adapter] show ?thesis
    by blast
qed

text \<open>
  The amended claim on agent \<open>a1\<close> of the concrete world.
\<close>

theorem prompt_only_run_completes_witness:
  "fst (run_agent_background TasksPy demo_env ''a1'' demo_world) = Inr () \<and>
   state_of ''a1'' (snd (run_agent_background TasksPy demo_env ''a1'' demo_world)) =
     Some completed_state \<and>
   (\<exists>t. output_of ''a1'' (snd (run_agent_background TasksPy demo_env ''a1'' demo_world)) =
          Some (JObj [(''model_response'', JObj [(''response'', JStr ''ok'')]), (''flowise'', JNull),
                      (''completed_at'', JStr t)]))"
proof -
  have dir: "agents demo_world ''a1'' = Some (demo_dir ''{\"prompt\": \"hi\"}'')"
    by (simp add: demo_world_def)
  have inp: "input_json (demo_dir ''{\"prompt\": \"hi\"}'') = Some ''{\"prompt\": \"hi\"}''"
    by (simp add: demo_dir_def)
  have loads: "json_loads demo_env ''{\"prompt\": \"hi\"}'' = Inr (JObj [(''prompt'', JStr ''hi'')])"
    by (simp add: demo_defs)
  have llm: "ollama_result TasksPy demo_env (JStr (if ''hi'' = [] then ''No task provided'' else ''hi''))
               = Inr (JObj [(''response'', JStr ''ok'')])"
    using demo_ollama by simp
  from prompt_only_run_completes [OF dir inp loads llm] show ?thesis .
qed

subsection \<open>Runs that fail\<close>

text \<open>
  Claim C2: a run without \<^verbatim>\<open>input.json\<close>, or with any other uncaught exception, leaves
  \<^verbatim>\<open>state.json\<close> with status \<open>failed\<close> and the error text, and re-raises. Where the
  directory exists this is what both modules do (\<open>failed_run_records_state\<close>,
  \<open>missing_input_fails\<close> above). For an agent without a directory, tasks.py does not:
  its handler's own write raises, nothing is recorded, and the exception that leaves is the
  handler's. app.py, on the same input, records the failure.
\<close>

theorem ghost_run_loses_failed_state:
  "input_of ''ghost'' demo_world = None \<and>
   fst (run_agent_background TasksPy demo_env ''ghost'' demo_world) =
     Inl (no_such_file ''/app/persistent/agents/ghost/state.json'') \<and>
   state_of ''ghost'' (snd (run_agent_background TasksPy demo_env ''ghost'' demo_world)) = None \<and>
   fst (run_agent_background AppPy demo_env ''ghost'' demo_world) =
     Inl (Exc RuntimeError ''input.json missing for agent ghost'') \<and>
   state_of ''ghost'' (snd (run_agent_background AppPy demo_env ''ghost'' demo_world)) =
     Some (failed_state (Exc RuntimeError ''input.json missing for agent ghost''))"
proof -
  have none: "agents demo_world ''ghost'' = None"
    by (simp add: demo_world_def)
  then have inp: "input_of ''ghost'' demo_world = None"
    by (simp add: input_of_def)
  have path: "agent_dir demo_env ''ghost'' @ ''/state.json'' = ''/app/persistent/agents/ghost/state.json''"
    by (simp add: agent_dir_def demo_env_def)
  have tasks: "run_agent_background TasksPy demo_env ''ghost'' demo_world =
      (Inl (no_such_file ''/app/persistent/agents/ghost/state.json''),
       demo_world\<lparr>clock := Suc (clock demo_world)\<rparr>)"
    using tasks_run_missing_dir [OF none, of demo_env] unfolding path .
  have "state_of ''ghost'' (demo_world\<lparr>clock := Suc (clock demo_world)\<rparr>) = None"
    using none by (simp add: state_of_def)
  with inp demo_run_ghost_app show ?thesis
    unfolding tasks by simp
qed

subsection \<open>A workflow engine that fails\<close>

text \<open>
  Claim C3, as stated: whenever the payload has a \<open>flow_id\<close> and the workflow call
  raises, the job completes. The LLM call comes after the workflow block and its failure is
  fatal: with no HTTP peer reachable the workflow call raises, is recorded, and then the
  job fails.
\<close>

theorem flowise_then_llm_failure_counterexample:
  "input_of ''a2'' demo_world = Some ''{\"prompt\": \"hi\", \"flow_id\": \"f1\"}'' \<and>
   json_loads down_env ''{\"prompt\": \"hi\", \"flow_id\": \"f1\"}'' =
     Inr (JObj [(''prompt'', JStr ''hi''), (''flow_id'', JStr ''f1'')]) \<and>
   flowise_result down_env (JStr ''f1'') (JObj []) = Inl (Exc RequestException ''Connection refused'') \<and>
   fst (run_agent_background TasksPy down_env ''a2'' demo_world) =
     Inl (Exc RequestException ''Connection refused'') \<and>
   state_of ''a2'' (snd (run_agent_background TasksPy down_env ''a2'' demo_world)) =
     Some (JObj [(''status'', JStr ''failed''), (''progress'', JInt 0),
                 (''error'', JStr ''Connection refused'')]) \<and>
   output_of ''a2'' (snd (run_agent_background TasksPy down_env ''a2'' demo_world)) = None"
proof -
  have "flowise_result down_env (JStr ''f1'') (JObj []) = Inl (Exc RequestException ''Connection refused'')"
    by (simp add: run_defs demo_defs view_defs down_env_def)
  moreover have "input_of ''a2'' demo_world = Some ''{\"prompt\": \"hi\", \"flow_id\": \"f1\"}''"
    by (simp add: demo_defs view_defs)
  moreover have "json_loads down_env ''{\"prompt\": \"hi\", \"flow_id\": \"f1\"}'' =
     Inr (JObj [(''prompt'', JStr ''hi''), (''flow_id'', JStr ''f1'')])"
    by (simp add: demo_defs down_env_def)
  ultimately show ?thesis using down_run_a2 by (simp add: failed_state_def)
qed

text \<open>
  Claim C3, amended: for every run whose payload is an object with a truthy \<open>flow_id\<close>,
  whose workflow call raises an exception with message \<open>m\<close>, whose LLM call then returns
  normally (its prompt carries the error object) and whose \<open>tool\<close> entry, if any, is an
  object: the job does not fail, \<^verbatim>\<open>state.json\<close> is the completed state and the
  \<open>flowise\<close> field of \<^verbatim>\<open>output.json\<close> is \<^verbatim>\<open>{"error": m}\<close>.
\<close>

theorem flowise_failure_is_recorded:
  assumes dir: "agents w aid = Some d"
    and inp: "input_json d = Some txt"
    and loads: "json_loads env txt = Inr (JObj kvs)"
    and flow_id: "truthy (lookup kvs ''flow_id'')"
    and raises: "flowise_result env (lookup kvs ''flow_id'')
                   (case map_of kvs ''context'' of None \<Rightarrow> JObj [] | Some c \<Rightarrow> c) = Inl e"
    and llm: "ollama_result m env (prompt_sent env kvs (JObj [(''error'', JStr (msg e))])) = Inr gen"
    and tool: "\<not> truthy (lookup kvs ''tool'') \<or> is_dict (lookup kvs ''tool'')"
  shows "fst (run_agent_background m env aid w) = Inr () \<and>
         state_of aid (snd (run_agent_background m env aid w)) = Some completed_state \<and>
         (\<exists>out. output_of aid (snd (run_agent_background m env aid w)) = Some (JObj out) \<and>
                map_of out ''flowise'' = Some (JObj [(''error'', JStr (msg e))]))"
proof -
  have ok: "dir_ok aid w" and inp': "input_of aid w = Some txt"
    using dir inp by (simp_all add: dir_ok_def input_of_def)
  have flow: "flow_output env kvs = JObj [(''error'', JStr (msg e))]"
    using flow_id raises by (simp add: flow_output_def)
  have llm': "ollama_result m env (prompt_sent env kvs (flow_output env kvs)) = Inr gen"
    using llm by (simp add: flow)
  have adapter: "\<exists>out'. fst (adapter_block m env aid (JObj kvs)
                    [(''model_response'', gen), (''flowise'', flow_output env kvs),
                     (''completed_at'', JStr t)] w1) = Inr out' \<and>
             map_of out' ''flowise'' = Some (JObj [(''error'', JStr (msg e))])"
    if ok1: "dir_ok aid w1" for w1 t
  proof -
    let ?out = "[(''model_response'', gen), (''flowise'', flow_output env kvs),
                 (''completed_at'', JStr t)]"
    from adapter_block_ok [OF ok1 tool] obtain out' where
      r: "fst (adapter_block m env aid (JObj kvs) ?out w1) = Inr out'" by blast
    from adapter_block_value [OF r]
    have "map_of out' ''flowise'' = map_of ?out ''flowise''"
      by (auto simp: update_conv')
    with r show ?thesis by (simp add: flow)
  qed
  from run_completes [OF ok inp' loads llm' adapter] show ?thesis
    by blast
qed

text \<open>
  The amended claim on agent \<open>a2\<close>, whose workflow engine refuses the connection.
\<close>

theorem flowise_failure_is_recorded_witness:
  "fst (run_agent_background TasksPy demo_env ''a2'' demo_world) = Inr () \<and>
   state_of ''a2'' (snd (run_agent_background TasksPy demo_env ''a2'' demo_world)) =
     Some completed_state \<and>
   (\<exists>out. output_of ''a2'' (snd (run_agent_background TasksPy demo_env ''a2'' demo_world)) =
            Some (JObj out) \<and>
          map_of out ''flowise'' = Some (JObj [(''error'', JStr ''Connection refused'')]))"
proof -
  let ?txt = "''{\"prompt\": \"hi\", \"flow_id\": \"f1\"}''"
  let ?kvs = "[(''prompt'', JStr ''hi''), (''flow_id'', JStr ''f1'')]"
  let ?e = "Exc RequestException ''Connection refused''"
  have dir: "agents demo_world ''a2'' = Some (demo_dir ?txt)"
    by (simp add: demo_world_def)
  have inp: "input_json (demo_dir ?txt) = Some ?txt"
    by (simp add: demo_dir_def)
  have loads: "json_loads demo_env ?txt = Inr (JObj ?kvs)"
    by (simp add: demo_defs)
  have flow_id: "truthy (lookup ?kvs ''flow_id'')"
    by (simp add: lookup_def)
  have raises: "flowise_result demo_env (lookup ?kvs ''flow_id'')
                  (case map_of ?kvs ''context'' of None \<Rightarrow> JObj [] | Some c \<Rightarrow> c) = Inl ?e"
    by (simp add: run_defs demo_defs view_defs)
  have llm: "ollama_result TasksPy demo_env (prompt_sent demo_env ?kvs (JObj [(''error'', JStr (msg ?e))]))
               = Inr (JObj [(''response'', JStr ''ok'')])"
    by (simp add: run_defs demo_defs view_defs)
  have tool: "\<not> truthy (lookup ?kvs ''tool'') \<or> is_dict (lookup ?kvs ''tool'')"
    by (simp add: lookup_def)
  from flowise_failure_is_recorded [OF dir inp loads flow_id raises llm tool] show ?thesis
    by simp
qed

subsection \<open>A tool adapter that is not installed\<close>




subsection \<open>The state file\<close>

text \<open>
  Claim C5: every \<^verbatim>\<open>state.json\<close> a run writes, in either module and whatever happens,
  is written for the agent of the run and satisfies \<open>state_inv\<close>: \<open>status\<close> is
  \<open>running\<close>, \<open>completed\<close> or \<open>failed\<close>; \<open>progress\<close> is 0 or 100; it is 100 exactly
  when \<open>status\<close> is \<open>completed\<close>; an \<open>error\<close> field is there only with \<open>failed\<close>.
  So does the \<^verbatim>\<open>state.json\<close> on disk after the run, unless the run left the file as it
  was.
\<close>

theorem state_json_invariant:
  "(history (snd (run_agent_background m env aid w)) = history w @ evs \<longrightarrow>
      WroteState a j \<in> set evs \<longrightarrow> a = aid \<and> state_inv j) \<and>
   (state_of aid (snd (run_agent_background m env aid w)) = state_of aid w \<or>
      (\<exists>s. state_of aid (snd (run_agent_background m env aid w)) = Some s \<and> state_inv s))"
proof -
  have ev: "evolves aid w (snd (run_agent_background m env aid w))"
    by (rule validD_rel [OF evolves_run_agent_background])
  have written: "a = aid \<and> state_inv j"
    if h: "history (snd (run_agent_background m env aid w)) = history w @ evs"
      and mem: "WroteState a j \<in> set evs"
  proof -
    from ev obtain evs' where "history (snd (run_agent_background m env aid w)) = history w @ evs'"
      and ok: "list_all (event_ok aid) evs'"
      by (auto simp: evolves_def)
    with h have "evs' = evs" by simp
    with ok mem have "event_ok aid (WroteState a j)"
      by (auto simp: list_all_iff)
    then show ?thesis by simp
  qed
  from ev have "state_of aid (snd (run_agent_background m env aid w)) = state_of aid w \<or>
      (\<exists>s. state_of aid (snd (run_agent_background m env aid w)) = Some s \<and> state_inv s)"
    by (simp add: evolves_def)
  with written show ?thesis by blast
qed

text \<open>
  The two states written by the run of agent \<open>a4\<close>, which has no input.
\<close>

theorem state_json_invariant_witness:
  "state_inv (JObj [(''status'', JStr ''running''), (''progress'', JInt 0)]) \<and>
   state_inv (JObj [(''status'', JStr ''failed''), (''progress'', JInt 0),
                    (''error'', JStr ''input.json missing for agent a4'')]) \<and>
   state_of ''a4'' (snd (run_agent_background TasksPy demo_env ''a4'' demo_world)) =
     Some (JObj [(''status'', JStr ''failed''), (''progress'', JInt 0),
                 (''error'', JStr ''input.json missing for agent a4'')])"
proof -
  let ?e = "Exc RuntimeError ''input.json missing for agent a4''"
  let ?evs = "[WroteState ''a4'' running_state, WroteState ''a4'' (failed_state ?e)]"
  have h: "history (snd (run_agent_background TasksPy demo_env ''a4'' demo_world)) =
             history demo_world @ ?evs"
    using demo_run_a4 by (simp add: demo_world_def)
  have final: "state_of ''a4'' (snd (run_agent_background TasksPy demo_env ''a4'' demo_world)) =
                 Some (failed_state ?e)"
    using demo_run_a4 by simp
  have "state_inv running_state"
    using state_json_invariant [where m = TasksPy and env = demo_env and aid = "''a4''"
        and w = demo_world and evs = "?evs" and a = "''a4''" and j = running_state] h
    by simp
  moreover have "state_inv (failed_state ?e)"
    using state_json_invariant [where m = TasksPy and env = demo_env and aid = "''a4''"
        and w = demo_world and evs = "?evs" and a = "''a4''" and j = "failed_state ?e"] h
    by simp
  ultimately show ?thesis
    using final by (simp add: running_state_def failed_state_def)
qed

subsection \<open>The streamed answer\<close>



subsection \<open>The start-job endpoint\<close>

text \<open>
  Claim C7, as stated: every body that contains an \<^verbatim>\<open>agent_id\<close> is answered 202. The
  handler tests the truth value of the identifier, not its presence: the body
  \<^verbatim>\<open>{"agent_id": ""}\<close> contains the key and is answered 400.
\<close>

theorem run_agent_empty_id_counterexample:
  "map_of [(''agent_id'', JStr '''')] ''agent_id'' = Some (JStr '''') \<and>
   run_agent (Some (JObj [(''agent_id'', JStr '''')])) =
     Inr (\<lparr>body = JObj [(''error'', JStr ''agent_id required'')], status_code = 400\<rparr>, None) \<and>
   run_agent (Some (JObj [(''agent_id'', JStr '''')])) \<noteq>
     Inr (spec_run_agent [(''agent_id'', JStr '''')], Some (JStr ''''))"
  by (simp add: run_agent_def spec_run_agent_def dict_get_def py_or_def)

text \<open>
  Claim C7, amended: for a request whose body is absent, is not JSON or is a JSON object,
  the answer is 202 with \<^verbatim>\<open>{status: "started", agent_id: <the id>}\<close> and one background
  thread started for that id exactly when the body's \<^verbatim>\<open>agent_id\<close> is truthy (not missing,
  null, false, 0, empty string, list or object); otherwise it is 400 with the error body
  and no thread is started. The answer is computed without running the job.
\<close>

theorem run_agent_contract:
  "request_json = None \<or> request_json = Some (JObj kvs) \<Longrightarrow>
   agent_id = (case request_json of None \<Rightarrow> JNull
               | Some j \<Rightarrow> (case map_of kvs ''agent_id'' of None \<Rightarrow> JNull | Some v \<Rightarrow> v)) \<Longrightarrow>
   run_agent request_json =
     (if truthy agent_id
      then Inr (\<lparr>body = JObj [(''status'', JStr ''started''), (''agent_id'', agent_id)],
                  status_code = 202\<rparr>, Some agent_id)
      else Inr (\<lparr>body = JObj [(''error'', JStr ''agent_id required'')], status_code = 400\<rparr>, None))"
  by (cases kvs) (auto simp: run_agent_def dict_get_def py_or_def split: option.splits)

theorem run_agent_contract_witness:
  "run_agent (Some (JObj [(''agent_id'', JStr ''a1'')])) =
     Inr (\<lparr>body = JObj [(''status'', JStr ''started''), (''agent_id'', JStr ''a1'')],
            status_code = 202\<rparr>, Some (JStr ''a1'')) \<and>
   run_agent (Some (JObj [(''other'', JInt 1)])) =
     Inr (\<lparr>body = JObj [(''error'', JStr ''agent_id required'')], status_code = 400\<rparr>, None)"
  using run_agent_contract [of "Some (JObj [(''agent_id'', JStr ''a1'')])" "[(''agent_id'', JStr ''a1'')]" "JStr ''a1''"]
        run_agent_contract [of "Some (JObj [(''other'', JInt 1)])" "[(''other'', JInt 1)]" JNull]
  by simp

subsection \<open>The prompt\<close>




subsection \<open>What a failed run leaves untouched\<close>



subsection \<open>The missing directory\<close>

text \<open>
  Claim C10: for an agent without a directory, tasks.py's \<^verbatim>\<open>run_agent_background\<close>
  raises before recording anything: the first log append fails with FileNotFoundError, the
  handler's write of the failed state fails the same way and its exception is the one that
  leaves; the files and the record of writes are as before, and no \<^verbatim>\<open>state.json\<close>
  exists for the agent.
\<close>

theorem tasks_missing_directory:
  assumes "agents w aid = None"
  shows "fst (agent_body TasksPy env aid w) = Inl (no_such_file (agent_dir env aid @ ''/log.txt'')) \<and>
         run_agent_background TasksPy env aid w =
           (Inl (no_such_file (agent_dir env aid @ ''/state.json'')), w\<lparr>clock := Suc (clock w)\<rparr>) \<and>
         agents (snd (run_agent_background TasksPy env aid w)) = agents w \<and>
         history (snd (run_agent_background TasksPy env aid w)) = history w \<and>
         state_of aid (snd (run_agent_background TasksPy env aid w)) = None"
  using assms
  by (simp add: tasks_body_missing_dir tasks_run_missing_dir state_of_def)

text \<open>
  The agent \<open>ghost\<close> of the concrete world.
\<close>

theorem tasks_missing_directory_witness:
  "fst (run_agent_background TasksPy demo_env ''ghost'' demo_world) =
     Inl (no_such_file ''/app/persistent/agents/ghost/state.json'') \<and>
   agents (snd (run_agent_background TasksPy demo_env ''ghost'' demo_world)) = agents demo_world \<and>
   history (snd (run_agent_background TasksPy demo_env ''ghost'' demo_world)) = history demo_world \<and>
   state_of ''ghost'' (snd (run_agent_background TasksPy demo_env ''ghost'' demo_world)) = None"
proof -
  have none: "agents demo_world ''ghost'' = None"
    by (simp add: demo_world_def)
  have path: "agent_dir demo_env ''ghost'' @ ''/state.json'' = ''/app/persistent/agents/ghost/state.json''"
    by (simp add: agent_dir_def demo_env_def)
  from tasks_missing_directory [OF none, of demo_env] show ?thesis
    unfolding path by (elim conjE) (simp add: state_of_def none)
qed

end
